theory Spec2Isabelle
  imports Complex_Main "HOL-Library.Sublist"
begin

section \<open>Results, geometry and the mesh\<close>

text \<open>
  The class \<open>Mean_curvature_skeleton\<close> of \<open>CGAL/Mean_curvature_skeleton.h\<close> works on a
  \<open>Polyhedron\<close> through the graph interface only: \<open>vertices\<close>, \<open>edges\<close>, \<open>in_edges\<close>,
  \<open>source\<close>, \<open>num_vertices\<close>, \<open>num_edges\<close>, the point of a vertex and the two index
  maps. The mesh is modelled as a store: descriptors are values of the types \<open>'v\<close> and
  \<open>'e\<close>, the iteration ranges are lists, and what hangs on a descriptor (its point, its
  id) is a function that assignments update.

  A \<open>double\<close> is modelled as a \<open>real\<close>: rounding, infinities and NaN are outside the
  model. Counts and ids are natural numbers (the source keeps them in \<open>int\<close>; meshes of
  \<open>2^31\<close> elements and more are outside the model).

  An access outside the bounds of a vector, and a \<open>set_coef\<close> outside the dimensions of
  the matrix, are undefined behaviour in the source; the model stops there with
  \<open>Out_of_range\<close>. \<open>NumericalError\<close> is the error that the specification names for
  a failed solve.
\<close>

datatype error = Out_of_range | NumericalError

definition and_then :: "error + 'a \<Rightarrow> ('a \<Rightarrow> error + 'b) \<Rightarrow> error + 'b" where
  "and_then r f = (case r of Inl e \<Rightarrow> Inl e | Inr a \<Rightarrow> f a)"

text \<open>A \<open>for\<close> loop over a range whose body may stop with an error.\<close>

fun for_each :: "'a list \<Rightarrow> ('a \<Rightarrow> 's \<Rightarrow> error + 's) \<Rightarrow> 's \<Rightarrow> error + 's" where
  "for_each [] body s = Inr s"
| "for_each (a # as) body s = and_then (body a s) (for_each as body)"

datatype Point = Point (point_x: real) (point_y: real) (point_z: real)

text \<open>
  \<open>is_fixed\<close> and \<open>facets\<close> are not read or written by any code of the header.
  Modelled from the spec: the fixed flag of a vertex (section 3, "Vertex: id, 3D
  position, fixed flag") is missing from the sources; it is a field of the vertex, like
  its id. \<open>facets\<close> stands for the faces of the surface, each given by its vertices.
\<close>

record ('v, 'e) Polyhedron =
  vertices :: "'v list"
  edges :: "'e list"
  in_edges :: "'v \<Rightarrow> 'e list"
  source :: "'e \<Rightarrow> 'v"
  facets :: "'v list list"
  point :: "'v \<Rightarrow> Point"
  vertex_id :: "'v \<Rightarrow> nat"
  edge_id :: "'e \<Rightarrow> nat"
  is_fixed :: "'v \<Rightarrow> bool"

definition num_vertices :: "('v, 'e) Polyhedron \<Rightarrow> nat" where
  "num_vertices P = length (vertices P)"

definition num_edges :: "('v, 'e) Polyhedron \<Rightarrow> nat" where
  "num_edges P = length (edges P)"

section \<open>The sparse linear algebra traits\<close>

text \<open>
  Modelled from the spec: the types \<open>Matrix\<close> and \<open>Vector\<close> of the template parameter
  \<open>SparseLinearAlgebraTraits_d\<close> are missing from the sources. A vector of dimension
  \<open>n\<close> is taken to start as \<open>n\<close> zeros and is read and written by index. A matrix has its two
  dimensions and its coefficients, all zero at first; \<open>set_coef i j val new_coef\<close> sets
  the coefficient of row \<open>i\<close> and column \<open>j\<close> to \<open>val\<close> (section 4.2 of the specification
  says "sets" of every entry that \<open>assemble_LHS\<close> writes); \<open>new_coef\<close> is the caller's
  hint that the coefficient was not set before and changes no value.
\<close>

type_synonym Vector = "real list"

definition Vector :: "nat \<Rightarrow> Vector" where
  "Vector n = replicate n 0"

definition vector_get :: "Vector \<Rightarrow> nat \<Rightarrow> error + real" where
  "vector_get V i = (if i < length V then Inr (V ! i) else Inl Out_of_range)"

definition vector_set :: "nat \<Rightarrow> real \<Rightarrow> Vector \<Rightarrow> error + Vector" where
  "vector_set i val V = (if i < length V then Inr (V[i := val]) else Inl Out_of_range)"

record Matrix =
  row_dimension :: nat
  column_dimension :: nat
  coef :: "nat \<Rightarrow> nat \<Rightarrow> real"

definition Matrix :: "nat \<Rightarrow> nat \<Rightarrow> Matrix" where
  "Matrix r c = \<lparr>row_dimension = r, column_dimension = c, coef = (\<lambda>i j. 0)\<rparr>"

definition set_coef :: "nat \<Rightarrow> nat \<Rightarrow> real \<Rightarrow> bool \<Rightarrow> Matrix \<Rightarrow> error + Matrix" where
  "set_coef i j val new_coef A =
     (if i < row_dimension A \<and> j < column_dimension A
      then Inr (A\<lparr>coef := (coef A)(i := (coef A i)(j := val))\<rparr>)
      else Inl Out_of_range)"

text \<open>
  Modelled from the spec: the solver of \<open>SparseLinearAlgebraTraits_d\<close> is missing from
  the sources. By section 6 of the specification it has a factorization step that takes
  the assembled matrix and returns success or failure with a determinant-like
  diagnostic, and a least-squares solve that takes the matrix and a right-hand side and
  returns success or failure with the solution. The source hands the solution vector
  \<open>X\<close> in by reference, so the solve also takes the \<open>X\<close> it is given. What a solver
  keeps of the factorization between the calls is not a state of the model: every call
  is given the matrix, as in the source.
\<close>

record Solver =
  pre_factor_non_symmetric :: "Matrix \<Rightarrow> bool \<times> real"
  linear_solver_non_symmetric :: "Matrix \<Rightarrow> Vector \<Rightarrow> Vector \<Rightarrow> bool \<times> Vector"

section \<open>The class Mean\_curvature\_skeleton\<close>

text \<open>
  The data members. \<open>polyhedron\<close> is a pointer in the source and the mesh is changed in
  place; here the object carries the mesh. The members \<open>vertex_id_pmap\<close> and
  \<open>edge_id_pmap\<close> are the property maps that the demo plugin instantiates with
  \<open>Polyhedron_with_id_property_map\<close>, whose \<open>operator[]\<close> is the \<open>id()\<close> field of the
  vertex or edge: \<open>boost::put\<close> and \<open>boost::get\<close> write and read \<open>vertex_id\<close> and
  \<open>edge_id\<close> of the mesh. The weight calculator (\<open>internal::Cotangent_weight\<close>, from a
  header that is not part of the sources) is a parameter.
\<close>

record ('v, 'e) Mean_curvature_skeleton =
  polyhedron :: "('v, 'e) Polyhedron"
  weight_calculator :: "'e \<Rightarrow> ('v, 'e) Polyhedron \<Rightarrow> real"
  edge_weight :: "real list"
  m_solver :: Solver
  omega_L :: real
  omega_H :: real

text \<open>
  The two loops of the constructor: \<open>put(pmap, *it, idx++)\<close> over a range. The
  member \<open>m_solver\<close> is default-constructed in the source; here the constructor is given
  the solver. The cache \<open>edge_weight\<close> starts empty.
\<close>

fun put_indices :: "'a list \<Rightarrow> nat \<Rightarrow> ('a \<Rightarrow> nat) \<Rightarrow> ('a \<Rightarrow> nat)" where
  "put_indices [] idx pmap = pmap"
| "put_indices (a # as) idx pmap = put_indices as (Suc idx) (pmap(a := idx))"

definition Mean_curvature_skeleton ::
  "('v, 'e) Polyhedron \<Rightarrow> real \<Rightarrow> real \<Rightarrow> ('e \<Rightarrow> ('v, 'e) Polyhedron \<Rightarrow> real) \<Rightarrow> Solver
    \<Rightarrow> ('v, 'e) Mean_curvature_skeleton" where
  "Mean_curvature_skeleton P omega_L' omega_H' weight_calculator' solver =
     \<lparr>polyhedron = P\<lparr>vertex_id := put_indices (vertices P) 0 (vertex_id P),
                     edge_id := put_indices (edges P) 0 (edge_id P)\<rparr>,
      weight_calculator = weight_calculator',
      edge_weight = [],
      m_solver = solver,
      omega_L = omega_L',
      omega_H = omega_H'\<rparr>"

text \<open>\<open>compute_edge_weight\<close>: one \<open>push_back\<close> for every edge of the mesh.\<close>

definition compute_edge_weight ::
  "('v, 'e) Mean_curvature_skeleton \<Rightarrow> ('v, 'e) Mean_curvature_skeleton" where
  "compute_edge_weight s =
     fold (\<lambda>eb s'. s'\<lparr>edge_weight := edge_weight s' @ [weight_calculator s' eb (polyhedron s')]\<rparr>)
          (edges (polyhedron s)) s"

text \<open>
  \<open>assemble_LHS\<close>. The first loop initializes the diagonal and the anchoring block; the
  second visits every vertex and, inside, every incoming edge of the vertex.
\<close>

definition init_row :: "nat \<Rightarrow> real \<Rightarrow> nat \<Rightarrow> Matrix \<Rightarrow> error + Matrix" where
  "init_row nver omega_H' i A =
     and_then (set_coef i i 0 True A) (set_coef (i + nver) i omega_H' True)"

definition in_edge_body ::
  "('v, 'e) Mean_curvature_skeleton \<Rightarrow> nat \<Rightarrow> 'e \<Rightarrow> Matrix \<times> real \<Rightarrow> error + Matrix \<times> real" where
  "in_edge_body s i e = (\<lambda>(A, diagonal).
     let vj = source (polyhedron s) e in
     and_then (vector_get (edge_weight s) (edge_id (polyhedron s) e)) (\<lambda>w.
     let wij = w * 2;
         j = vertex_id (polyhedron s) vj in
     and_then (set_coef i j (wij * omega_L s) True A) (\<lambda>A'.
     Inr (A', diagonal + - wij))))"

definition vertex_row ::
  "('v, 'e) Mean_curvature_skeleton \<Rightarrow> 'v \<Rightarrow> Matrix \<Rightarrow> error + Matrix" where
  "vertex_row s vb A =
     (let i = vertex_id (polyhedron s) vb in
      and_then (for_each (in_edges (polyhedron s) vb) (in_edge_body s i) (A, 0))
        (\<lambda>(A', diagonal). set_coef i i diagonal False A'))"

definition assemble_LHS ::
  "('v, 'e) Mean_curvature_skeleton \<Rightarrow> Matrix \<Rightarrow> error + Matrix" where
  "assemble_LHS s A =
     (let nver = num_vertices (polyhedron s) in
      and_then (for_each [0..<nver] (init_row nver (omega_H s)) A)
        (for_each (vertices (polyhedron s)) (vertex_row s)))"

text \<open>\<open>assemble_RHS\<close>: zeros in the first \<open>nver\<close> entries, the anchors after them.\<close>

definition zero_entry :: "nat \<Rightarrow> Vector \<times> Vector \<times> Vector \<Rightarrow> error + Vector \<times> Vector \<times> Vector" where
  "zero_entry i = (\<lambda>(Bx, By, Bz).
     and_then (vector_set i 0 Bx) (\<lambda>Bx'.
     and_then (vector_set i 0 By) (\<lambda>By'.
     and_then (vector_set i 0 Bz) (\<lambda>Bz'.
     Inr (Bx', By', Bz')))))"

definition anchor_entry ::
  "('v, 'e) Mean_curvature_skeleton \<Rightarrow> nat \<Rightarrow> 'v
    \<Rightarrow> Vector \<times> Vector \<times> Vector \<Rightarrow> error + Vector \<times> Vector \<times> Vector" where
  "anchor_entry s nver vi = (\<lambda>(Bx, By, Bz).
     let i = vertex_id (polyhedron s) vi in
     and_then (vector_set (i + nver) (point_x (point (polyhedron s) vi) * omega_H s) Bx) (\<lambda>Bx'.
     and_then (vector_set (i + nver) (point_y (point (polyhedron s) vi) * omega_H s) By) (\<lambda>By'.
     and_then (vector_set (i + nver) (point_z (point (polyhedron s) vi) * omega_H s) Bz) (\<lambda>Bz'.
     Inr (Bx', By', Bz')))))"

definition assemble_RHS ::
  "('v, 'e) Mean_curvature_skeleton \<Rightarrow> Vector \<times> Vector \<times> Vector
    \<Rightarrow> error + Vector \<times> Vector \<times> Vector" where
  "assemble_RHS s B =
     (let nver = num_vertices (polyhedron s) in
      and_then (for_each [0..<nver] zero_entry B)
        (for_each (vertices (polyhedron s)) (anchor_entry s nver)))"

text \<open>
  \<open>contract_geometry\<close>. The values that the three solver calls return are not looked
  at in the source; the model binds them to names that are not used.
\<close>

definition copy_to_mesh ::
  "Vector \<Rightarrow> Vector \<Rightarrow> Vector \<Rightarrow> 'v
    \<Rightarrow> ('v, 'e) Mean_curvature_skeleton \<Rightarrow> error + ('v, 'e) Mean_curvature_skeleton" where
  "copy_to_mesh X Y Z vi s =
     (let i = vertex_id (polyhedron s) vi in
      and_then (vector_get X i) (\<lambda>xi.
      and_then (vector_get Y i) (\<lambda>yi.
      and_then (vector_get Z i) (\<lambda>zi.
      let p = Point xi yi zi in
      Inr (s\<lparr>polyhedron := (polyhedron s)\<lparr>point := (point (polyhedron s))(vi := p)\<rparr>\<rparr>)))))"

definition contract_geometry ::
  "('v, 'e) Mean_curvature_skeleton \<Rightarrow> error + ('v, 'e) Mean_curvature_skeleton" where
  "contract_geometry s0 =
     (let s = compute_edge_weight s0;
          nver = num_vertices (polyhedron s) in
      and_then (assemble_LHS s (Matrix (nver * 2) nver)) (\<lambda>A.
      and_then (assemble_RHS s (Vector (nver * 2), Vector (nver * 2), Vector (nver * 2)))
        (\<lambda>(Bx, By, Bz).
      let (factored, D) = pre_factor_non_symmetric (m_solver s) A;
          (solved_x, X) = linear_solver_non_symmetric (m_solver s) A Bx (Vector nver);
          (solved_y, Y) = linear_solver_non_symmetric (m_solver s) A By (Vector nver);
          (solved_z, Z) = linear_solver_non_symmetric (m_solver s) A Bz (Vector nver) in
      for_each (vertices (polyhedron s)) (copy_to_mesh X Y Z) s)))"

text \<open>Contraction steps one after the other on one object, as the demo's button runs them.\<close>

fun contract_steps ::
  "nat \<Rightarrow> ('v, 'e) Mean_curvature_skeleton \<Rightarrow> error + ('v, 'e) Mean_curvature_skeleton" where
  "contract_steps 0 s = Inr s"
| "contract_steps (Suc k) s = and_then (contract_geometry s) (contract_steps k)"

section \<open>What the demo plugin calls and the header does not hold\<close>

text \<open>
  Modelled from the spec: the demo plugin calls \<open>collapse_short_edges\<close>,
  \<open>iteratively_split_triangles\<close>, \<open>detect_degeneracies\<close> and \<open>get_fixed_points\<close> on
  the object, and constructs it with the two thresholds; none of these members is in the
  header of the sources. They are written here from sections 3, 4.4, 4.5 and 4.6 of the
  specification, around the class above as \<open>core\<close>.
\<close>

record ('v, 'e) Driver =
  core :: "('v, 'e) Mean_curvature_skeleton"
  edgelength_TH :: real
  zero_TH :: real
  fixed_points :: "Point list"

text \<open>
  Modelled from the spec: the Topology Maintainer of section 4.4 is missing from the
  sources. Its two operations change the mesh and return a count; what they do to the
  mesh is a parameter.
\<close>

record ('v, 'e) Topology_maintainer =
  collapse_edges :: "real \<Rightarrow> ('v, 'e) Polyhedron \<Rightarrow> ('v, 'e) Polyhedron \<times> nat"
  split_triangles :: "('v, 'e) Polyhedron \<Rightarrow> ('v, 'e) Polyhedron \<times> nat"

definition collapse_short_edges ::
  "('v, 'e) Topology_maintainer \<Rightarrow> ('v, 'e) Driver \<Rightarrow> ('v, 'e) Driver \<times> nat" where
  "collapse_short_edges tm d =
     (let (P, num_collapses) = collapse_edges tm (edgelength_TH d) (polyhedron (core d)) in
      (d\<lparr>core := (core d)\<lparr>polyhedron := P\<rparr>\<rparr>, num_collapses))"

definition iteratively_split_triangles ::
  "('v, 'e) Topology_maintainer \<Rightarrow> ('v, 'e) Driver \<Rightarrow> ('v, 'e) Driver \<times> nat" where
  "iteratively_split_triangles tm d =
     (let (P, num_split) = split_triangles tm (polyhedron (core d)) in
      (d\<lparr>core := (core d)\<lparr>polyhedron := P\<rparr>\<rparr>, num_split))"






section \<open>A small mesh and a small solver to run the code on\<close>

text \<open>
  \<open>normal_equations_2\<close> solves a system of two unknowns in the least-squares sense:
  it forms the normal equations and solves them by Cramer's rule. It reports failure,
  and leaves \<open>X\<close> as it was given, when the matrix of the normal equations is singular.
  \<open>failing S\<close> returns what the solver \<open>S\<close> returns and reports failure on every call.

  \<open>segment x0 x1\<close> has two vertices, at \<open>x0\<close> and \<open>x1\<close> on the first axis, and the two
  opposite edges between them; an edge is the pair of its source and its target.
  The first vertex carries the fixed flag. \<open>span_weight\<close> is a weight that follows the
  geometry (a tenth of the extent of the edge along the first axis), and \<open>reach\<close> a
  local extent of a vertex (its distance to its neighbours along that axis).
\<close>

definition gram :: "Matrix \<Rightarrow> nat \<Rightarrow> nat \<Rightarrow> real" where
  "gram A j k = (\<Sum>r\<leftarrow>[0..<row_dimension A]. coef A r j * coef A r k)"

definition moment :: "Matrix \<Rightarrow> Vector \<Rightarrow> nat \<Rightarrow> real" where
  "moment A B j = (\<Sum>r\<leftarrow>[0..<row_dimension A]. coef A r j * B ! r)"

definition normal_equations_2 :: Solver where
  "normal_equations_2 =
     \<lparr>pre_factor_non_symmetric = (\<lambda>A.
        let det = gram A 0 0 * gram A 1 1 - gram A 0 1 * gram A 0 1 in (det \<noteq> 0, det)),
      linear_solver_non_symmetric = (\<lambda>A B X.
        let a = gram A 0 0; b = gram A 0 1; d = gram A 1 1;
            p = moment A B 0; q = moment A B 1;
            det = a * d - b * b in
        if det = 0 then (False, X)
        else (True, [(d * p - b * q) / det, (a * q - b * p) / det]))\<rparr>"

definition failing :: "Solver \<Rightarrow> Solver" where
  "failing S =
     \<lparr>pre_factor_non_symmetric = (\<lambda>A. (False, snd (pre_factor_non_symmetric S A))),
      linear_solver_non_symmetric = (\<lambda>A B X. (False, snd (linear_solver_non_symmetric S A B X)))\<rparr>"

definition segment :: "real \<Rightarrow> real \<Rightarrow> (nat, nat \<times> nat) Polyhedron" where
  "segment x0 x1 =
     \<lparr>vertices = [0, 1], edges = [(1, 0), (0, 1)],
      in_edges = (\<lambda>v. filter (\<lambda>e. snd e = v) [(1, 0), (0, 1)]),
      source = fst, facets = [],
      point = (\<lambda>v. if v = 0 then Point x0 0 0 else Point x1 0 0),
      vertex_id = (\<lambda>v. 0), edge_id = (\<lambda>e. 0), is_fixed = (\<lambda>v. v = 0)\<rparr>"

definition span_weight :: "nat \<times> nat \<Rightarrow> (nat, nat \<times> nat) Polyhedron \<Rightarrow> real" where
  "span_weight e P = \<bar>point_x (point P (fst e)) - point_x (point P (snd e))\<bar> / 10"


definition anchored :: "(nat, nat \<times> nat) Mean_curvature_skeleton" where
  "anchored = Mean_curvature_skeleton (segment 0 5) 1 1 span_weight normal_equations_2"

definition unanchored :: "(nat, nat \<times> nat) Mean_curvature_skeleton" where
  "unanchored = Mean_curvature_skeleton (segment 0 5) 1 0 span_weight normal_equations_2"





text \<open>
  \<open>contracted_once\<close> is the object \<open>anchored\<close> after one contraction step, which leaves
  the two vertices at 2 and 3. \<open>fresh_object\<close> is a new object constructed on the
  segment with its vertices at 2 and 3, with the same parameters.
\<close>

definition contracted_once :: "(nat, nat \<times> nat) Mean_curvature_skeleton" where
  "contracted_once = projr (contract_geometry anchored)"

definition fresh_object :: "(nat, nat \<times> nat) Mean_curvature_skeleton" where
  "fresh_object = Mean_curvature_skeleton (segment 2 3) 1 1 span_weight normal_equations_2"

section \<open>Loops that may stop with an error\<close>

lemma and_then_Inr [simp]: "and_then (Inr a) f = f a"
  by (simp add: and_then_def)

lemma and_then_Inl [simp]: "and_then (Inl e) f = Inl e"
  by (simp add: and_then_def)

lemma and_then_eq_Inr: "and_then r f = Inr b \<longleftrightarrow> (\<exists>a. r = Inr a \<and> f a = Inr b)"
  by (cases r) simp_all

subsection \<open>The constructor, the weight cache and the write-back loop\<close>



lemma compute_edge_weight_eq:
  "compute_edge_weight s =
     s\<lparr>edge_weight := edge_weight s @
          map (\<lambda>e. weight_calculator s e (polyhedron s)) (edges (polyhedron s))\<rparr>"
proof -
  have "fold (\<lambda>eb s'. s'\<lparr>edge_weight := edge_weight s' @ [weight_calculator s' eb (polyhedron s')]\<rparr>) es s
        = s\<lparr>edge_weight := edge_weight s @ map (\<lambda>e. weight_calculator s e (polyhedron s)) es\<rparr>" for es
    by (induction es arbitrary: s) simp_all
  then show ?thesis by (simp add: compute_edge_weight_def)
qed

lemma copy_to_mesh_eq:
  "copy_to_mesh X Y Z vi s =
     (if vertex_id (polyhedron s) vi < length X \<and> vertex_id (polyhedron s) vi < length Y
         \<and> vertex_id (polyhedron s) vi < length Z
      then Inr (s\<lparr>polyhedron := (polyhedron s)\<lparr>point := (point (polyhedron s))
                  (vi := Point (X ! vertex_id (polyhedron s) vi) (Y ! vertex_id (polyhedron s) vi)
                               (Z ! vertex_id (polyhedron s) vi))\<rparr>\<rparr>)
      else Inl Out_of_range)"
  by (simp add: copy_to_mesh_def vector_get_def Let_def)

lemma copy_loop_eq:
  "for_each vs (copy_to_mesh X Y Z) s =
     (if \<forall>v\<in>set vs. vertex_id (polyhedron s) v < length X \<and> vertex_id (polyhedron s) v < length Y
                     \<and> vertex_id (polyhedron s) v < length Z
      then Inr (s\<lparr>polyhedron := (polyhedron s)\<lparr>point := (\<lambda>v.
                  if v \<in> set vs
                  then Point (X ! vertex_id (polyhedron s) v) (Y ! vertex_id (polyhedron s) v)
                             (Z ! vertex_id (polyhedron s) v)
                  else point (polyhedron s) v)\<rparr>\<rparr>)
      else Inl Out_of_range)"
proof (induction vs arbitrary: s)
  case Nil
  show ?case by simp
next
  case (Cons a vs)
  let ?i = "vertex_id (polyhedron s)"
  show ?case
  proof (cases "?i a < length X \<and> ?i a < length Y \<and> ?i a < length Z")
    case False
    then show ?thesis by (auto simp: copy_to_mesh_eq)
  next
    case True
    let ?t = "s\<lparr>polyhedron := (polyhedron s)\<lparr>point := (point (polyhedron s))
                  (a := Point (X ! ?i a) (Y ! ?i a) (Z ! ?i a))\<rparr>\<rparr>"
    have step: "copy_to_mesh X Y Z a s = Inr ?t"
      using True by (simp add: copy_to_mesh_eq)
    have "for_each (a # vs) (copy_to_mesh X Y Z) s = for_each vs (copy_to_mesh X Y Z) ?t"
      by (simp add: step)
    also have "\<dots> = (if \<forall>v\<in>set vs. ?i v < length X \<and> ?i v < length Y \<and> ?i v < length Z
      then Inr (?t\<lparr>polyhedron := (polyhedron ?t)\<lparr>point := (\<lambda>v.
                  if v \<in> set vs then Point (X ! ?i v) (Y ! ?i v) (Z ! ?i v)
                  else point (polyhedron ?t) v)\<rparr>\<rparr>)
      else Inl Out_of_range)"
      by (subst Cons.IH) (simp cong: if_cong)
    also have "\<dots> = (if \<forall>v\<in>set (a # vs). ?i v < length X \<and> ?i v < length Y \<and> ?i v < length Z
      then Inr (s\<lparr>polyhedron := (polyhedron s)\<lparr>point := (\<lambda>v.
                  if v \<in> set (a # vs) then Point (X ! ?i v) (Y ! ?i v) (Z ! ?i v)
                  else point (polyhedron s) v)\<rparr>\<rparr>)
      else Inl Out_of_range)"
      using True by (auto simp: fun_eq_iff)
    finally show ?thesis .
  qed
qed

lemma compute_edge_weight_fields [simp]:
  "polyhedron (compute_edge_weight s) = polyhedron s"
  "weight_calculator (compute_edge_weight s) = weight_calculator s"
  "m_solver (compute_edge_weight s) = m_solver s"
  "omega_L (compute_edge_weight s) = omega_L s"
  "omega_H (compute_edge_weight s) = omega_H s"
  by (simp_all add: compute_edge_weight_eq)

lemma contract_geometry_Inr:
  assumes "contract_geometry s = Inr s'"
  obtains A Bx By Bz X Y Z where
    "assemble_LHS (compute_edge_weight s)
       (Matrix (num_vertices (polyhedron s) * 2) (num_vertices (polyhedron s))) = Inr A"
    "assemble_RHS (compute_edge_weight s)
       (Vector (num_vertices (polyhedron s) * 2), Vector (num_vertices (polyhedron s) * 2),
        Vector (num_vertices (polyhedron s) * 2)) = Inr (Bx, By, Bz)"
    "X = snd (linear_solver_non_symmetric (m_solver s) A Bx (Vector (num_vertices (polyhedron s))))"
    "Y = snd (linear_solver_non_symmetric (m_solver s) A By (Vector (num_vertices (polyhedron s))))"
    "Z = snd (linear_solver_non_symmetric (m_solver s) A Bz (Vector (num_vertices (polyhedron s))))"
    "for_each (vertices (polyhedron s)) (copy_to_mesh X Y Z) (compute_edge_weight s) = Inr s'"
proof -
  let ?n = "num_vertices (polyhedron s)"
  from assms obtain A B where
    A: "assemble_LHS (compute_edge_weight s) (Matrix (?n * 2) ?n) = Inr A"
    and B: "assemble_RHS (compute_edge_weight s) (Vector (?n * 2), Vector (?n * 2), Vector (?n * 2)) = Inr B"
    and loop: "for_each (vertices (polyhedron s))
       (copy_to_mesh (snd (linear_solver_non_symmetric (m_solver s) A (fst B) (Vector ?n)))
                     (snd (linear_solver_non_symmetric (m_solver s) A (fst (snd B)) (Vector ?n)))
                     (snd (linear_solver_non_symmetric (m_solver s) A (snd (snd B)) (Vector ?n))))
       (compute_edge_weight s) = Inr s'"
    by (auto simp: contract_geometry_def Let_def and_then_eq_Inr case_prod_beta)
  show thesis
    by (rule that [OF A _ refl refl refl loop]) (simp add: B)
qed

lemma copy_loop_Inr:
  assumes "for_each vs (copy_to_mesh X Y Z) s = Inr s'"
  shows "s' = s\<lparr>polyhedron := (polyhedron s)\<lparr>point := point (polyhedron s')\<rparr>\<rparr>"
    and "\<forall>v\<in>set vs. vertex_id (polyhedron s) v < length X \<and> vertex_id (polyhedron s) v < length Y
                     \<and> vertex_id (polyhedron s) v < length Z"
    and "\<forall>v. point (polyhedron s') v =
           (if v \<in> set vs
            then Point (X ! vertex_id (polyhedron s) v) (Y ! vertex_id (polyhedron s) v)
                       (Z ! vertex_id (polyhedron s) v)
            else point (polyhedron s) v)"
  using assms by (auto simp: copy_loop_eq split: if_splits)

lemma contract_geometry_preserves:
  assumes "contract_geometry s = Inr s'"
  shows "polyhedron s' = (polyhedron s)\<lparr>point := point (polyhedron s')\<rparr>"
    and "s' = s\<lparr>polyhedron := polyhedron s', edge_weight := edge_weight s'\<rparr>"
proof -
  from assms obtain X Y Z where
    loop: "for_each (vertices (polyhedron s)) (copy_to_mesh X Y Z) (compute_edge_weight s) = Inr s'"
    by (rule contract_geometry_Inr)
  have eq: "s' = (compute_edge_weight s)\<lparr>polyhedron := (polyhedron s)\<lparr>point := point (polyhedron s')\<rparr>\<rparr>"
    using copy_loop_Inr(1) [OF loop] by simp
  show "polyhedron s' = (polyhedron s)\<lparr>point := point (polyhedron s')\<rparr>"
    by (subst eq) simp
  show "s' = s\<lparr>polyhedron := polyhedron s', edge_weight := edge_weight s'\<rparr>"
    by (subst (1 2 3) eq) (simp add: compute_edge_weight_eq)
qed

subsection \<open>The matrix that \<open>assemble_LHS\<close> builds\<close>

lemma in_edge_body_eq:
  "in_edge_body s i e (A, d) =
     (if edge_id (polyhedron s) e < length (edge_weight s) \<and> i < row_dimension A
         \<and> vertex_id (polyhedron s) (source (polyhedron s) e) < column_dimension A
      then Inr (A\<lparr>coef := (coef A)(i := (coef A i)
                  (vertex_id (polyhedron s) (source (polyhedron s) e) :=
                     edge_weight s ! edge_id (polyhedron s) e * 2 * omega_L s))\<rparr>,
                d + - (edge_weight s ! edge_id (polyhedron s) e * 2))
      else Inl Out_of_range)"
  by (simp add: in_edge_body_def vector_get_def set_coef_def Let_def)

lemma in_edges_loop:
  fixes s :: "('v, 'e) Mean_curvature_skeleton"
  defines "j \<equiv> \<lambda>e. vertex_id (polyhedron s) (source (polyhedron s) e)"
    and "w \<equiv> \<lambda>e. edge_weight s ! edge_id (polyhedron s) e * 2"
  assumes "\<forall>e\<in>set es. edge_id (polyhedron s) e < length (edge_weight s) \<and> j e < column_dimension A"
    and "i < row_dimension A"
  shows "\<exists>A'. for_each es (in_edge_body s i) (A, d) = Inr (A', d - (\<Sum>e\<leftarrow>es. w e))
           \<and> row_dimension A' = row_dimension A \<and> column_dimension A' = column_dimension A
           \<and> (\<forall>r. r \<noteq> i \<longrightarrow> coef A' r = coef A r)
           \<and> (\<forall>c. c \<notin> j ` set es \<longrightarrow> coef A' i c = coef A i c)
           \<and> (distinct (map j es) \<longrightarrow> (\<forall>e\<in>set es. coef A' i (j e) = w e * omega_L s))"
  using assms(3,4)
proof (induction es arbitrary: A d)
  case Nil
  show ?case by simp
next
  case (Cons e es)
  let ?A1 = "A\<lparr>coef := (coef A)(i := (coef A i)(j e := w e * omega_L s))\<rparr>"
  have step: "in_edge_body s i e (A, d) = Inr (?A1, d + - w e)"
    using Cons.prems by (simp add: in_edge_body_eq j_def w_def)
  have "\<forall>e\<in>set es. edge_id (polyhedron s) e < length (edge_weight s) \<and> j e < column_dimension ?A1"
    and "i < row_dimension ?A1"
    using Cons.prems by simp_all
  from Cons.IH [OF this, of "d + - w e"] obtain A' where
    loop: "for_each es (in_edge_body s i) (?A1, d + - w e) = Inr (A', d + - w e - (\<Sum>e\<leftarrow>es. w e))"
    and dims: "row_dimension A' = row_dimension A" "column_dimension A' = column_dimension A"
    and rows: "\<forall>r. r \<noteq> i \<longrightarrow> coef A' r = coef ?A1 r"
    and cols: "\<forall>c. c \<notin> j ` set es \<longrightarrow> coef A' i c = coef ?A1 i c"
    and vals: "distinct (map j es) \<longrightarrow> (\<forall>e\<in>set es. coef A' i (j e) = w e * omega_L s)"
    by auto
  have "d + - w e - (\<Sum>e\<leftarrow>es. w e) = d - (\<Sum>e\<leftarrow>e # es. w e)"
    by simp
  with loop have 1: "for_each (e # es) (in_edge_body s i) (A, d) = Inr (A', d - (\<Sum>e\<leftarrow>e # es. w e))"
    by (simp add: step)
  have 2: "\<forall>r. r \<noteq> i \<longrightarrow> coef A' r = coef A r"
    using rows by simp
  have 3: "\<forall>c. c \<notin> j ` set (e # es) \<longrightarrow> coef A' i c = coef A i c"
    using cols by simp
  have 4: "distinct (map j (e # es)) \<longrightarrow> (\<forall>e\<in>set (e # es). coef A' i (j e) = w e * omega_L s)"
  proof
    assume dist: "distinct (map j (e # es))"
    then have "j e \<notin> j ` set es" by simp
    then have "coef A' i (j e) = w e * omega_L s"
      using cols by simp
    moreover have "\<forall>e\<in>set es. coef A' i (j e) = w e * omega_L s"
      using vals dist by simp
    ultimately show "\<forall>e\<in>set (e # es). coef A' i (j e) = w e * omega_L s"
      by simp
  qed
  from 1 dims 2 3 4 show ?case by blast
qed

lemma vertex_row_result:
  fixes s :: "('v, 'e) Mean_curvature_skeleton"
  defines "j \<equiv> \<lambda>e. vertex_id (polyhedron s) (source (polyhedron s) e)"
    and "w \<equiv> \<lambda>e. edge_weight s ! edge_id (polyhedron s) e * 2"
    and "i \<equiv> \<lambda>v. vertex_id (polyhedron s) v"
    and "es \<equiv> \<lambda>v. in_edges (polyhedron s) v"
  assumes "\<forall>e\<in>set (es v). edge_id (polyhedron s) e < length (edge_weight s) \<and> j e < column_dimension A"
    and "i v < row_dimension A" and "i v < column_dimension A"
  shows "\<exists>A'. vertex_row s v A = Inr A'
           \<and> row_dimension A' = row_dimension A \<and> column_dimension A' = column_dimension A
           \<and> (\<forall>r. r \<noteq> i v \<longrightarrow> coef A' r = coef A r)
           \<and> coef A' (i v) (i v) = - (\<Sum>e\<leftarrow>es v. w e)
           \<and> (distinct (map j (es v)) \<and> i v \<notin> j ` set (es v)
                \<longrightarrow> (\<forall>e\<in>set (es v). coef A' (i v) (j e) = w e * omega_L s))"
proof -
  from in_edges_loop [of "es v" s A "i v" 0] assms(5,6) obtain A1 where
    loop: "for_each (es v) (in_edge_body s (i v)) (A, 0) = Inr (A1, 0 - (\<Sum>e\<leftarrow>es v. w e))"
    and dims: "row_dimension A1 = row_dimension A" "column_dimension A1 = column_dimension A"
    and rows: "\<forall>r. r \<noteq> i v \<longrightarrow> coef A1 r = coef A r"
    and vals: "distinct (map j (es v)) \<longrightarrow> (\<forall>e\<in>set (es v). coef A1 (i v) (j e) = w e * omega_L s)"
    unfolding j_def w_def by blast
  let ?A' = "A1\<lparr>coef := (coef A1)(i v := (coef A1 (i v))(i v := - (\<Sum>e\<leftarrow>es v. w e)))\<rparr>"
  have "vertex_row s v A = Inr ?A'"
    using loop dims assms(6,7) by (simp add: vertex_row_def Let_def i_def es_def set_coef_def)
  moreover have "\<forall>r. r \<noteq> i v \<longrightarrow> coef ?A' r = coef A r"
    using rows by simp
  moreover have "distinct (map j (es v)) \<and> i v \<notin> j ` set (es v)
      \<longrightarrow> (\<forall>e\<in>set (es v). coef ?A' (i v) (j e) = w e * omega_L s)"
    using vals by (auto simp: image_iff)
  ultimately show ?thesis using dims by (intro exI [of _ ?A']) simp
qed

lemma vertices_loop:
  fixes s :: "('v, 'e) Mean_curvature_skeleton"
  defines "j \<equiv> \<lambda>e. vertex_id (polyhedron s) (source (polyhedron s) e)"
    and "w \<equiv> \<lambda>e. edge_weight s ! edge_id (polyhedron s) e * 2"
    and "i \<equiv> \<lambda>v. vertex_id (polyhedron s) v"
    and "es \<equiv> \<lambda>v. in_edges (polyhedron s) v"
  assumes "distinct (map i vs)"
    and "\<forall>v\<in>set vs. i v < row_dimension A \<and> i v < column_dimension A
           \<and> (\<forall>e\<in>set (es v). edge_id (polyhedron s) e < length (edge_weight s)
                 \<and> j e < column_dimension A)"
  shows "\<exists>A'. for_each vs (vertex_row s) A = Inr A'
           \<and> row_dimension A' = row_dimension A \<and> column_dimension A' = column_dimension A
           \<and> (\<forall>r. r \<notin> i ` set vs \<longrightarrow> coef A' r = coef A r)
           \<and> (\<forall>v\<in>set vs. coef A' (i v) (i v) = - (\<Sum>e\<leftarrow>es v. w e)
                 \<and> (distinct (map j (es v)) \<and> i v \<notin> j ` set (es v)
                      \<longrightarrow> (\<forall>e\<in>set (es v). coef A' (i v) (j e) = w e * omega_L s)))"
  using assms(5,6)
proof (induction vs arbitrary: A)
  case Nil
  show ?case by simp
next
  case (Cons v vs)
  from vertex_row_result [of s v A] Cons.prems(2) obtain A1 where
    step: "vertex_row s v A = Inr A1"
    and dims1: "row_dimension A1 = row_dimension A" "column_dimension A1 = column_dimension A"
    and rows1: "\<forall>r. r \<noteq> i v \<longrightarrow> coef A1 r = coef A r"
    and diag1: "coef A1 (i v) (i v) = - (\<Sum>e\<leftarrow>es v. w e)"
    and vals1: "distinct (map j (es v)) \<and> i v \<notin> j ` set (es v)
                  \<longrightarrow> (\<forall>e\<in>set (es v). coef A1 (i v) (j e) = w e * omega_L s)"
    unfolding j_def w_def i_def es_def by auto
  have "distinct (map i vs)"
    and "\<forall>v\<in>set vs. i v < row_dimension A1 \<and> i v < column_dimension A1
           \<and> (\<forall>e\<in>set (es v). edge_id (polyhedron s) e < length (edge_weight s)
                 \<and> j e < column_dimension A1)"
    using Cons.prems dims1 by simp_all
  from Cons.IH [OF this] obtain A' where
    loop: "for_each vs (vertex_row s) A1 = Inr A'"
    and dims: "row_dimension A' = row_dimension A1" "column_dimension A' = column_dimension A1"
    and rows: "\<forall>r. r \<notin> i ` set vs \<longrightarrow> coef A' r = coef A1 r"
    and vals: "\<forall>v\<in>set vs. coef A' (i v) (i v) = - (\<Sum>e\<leftarrow>es v. w e)
                 \<and> (distinct (map j (es v)) \<and> i v \<notin> j ` set (es v)
                      \<longrightarrow> (\<forall>e\<in>set (es v). coef A' (i v) (j e) = w e * omega_L s))"
    by blast
  have fresh: "i v \<notin> i ` set vs"
    using Cons.prems(1) by simp
  then have row_v: "coef A' (i v) = coef A1 (i v)"
    using rows by simp
  have 1: "for_each (v # vs) (vertex_row s) A = Inr A'"
    by (simp add: step loop)
  have 2: "\<forall>r. r \<notin> i ` set (v # vs) \<longrightarrow> coef A' r = coef A r"
    using rows rows1 by simp
  have 3: "\<forall>u\<in>set (v # vs). coef A' (i u) (i u) = - (\<Sum>e\<leftarrow>es u. w e)
                 \<and> (distinct (map j (es u)) \<and> i u \<notin> j ` set (es u)
                      \<longrightarrow> (\<forall>e\<in>set (es u). coef A' (i u) (j e) = w e * omega_L s))"
    using vals diag1 vals1 row_v by simp
  from 1 2 3 dims dims1 show ?case
    by (intro exI [of _ A']) simp
qed

lemma init_row_eq:
  "init_row nver h i A =
     (if i < row_dimension A \<and> i < column_dimension A \<and> i + nver < row_dimension A
      then Inr (A\<lparr>coef := (coef A)(i := (coef A i)(i := 0),
                     i + nver := (((coef A)(i := (coef A i)(i := 0))) (i + nver))(i := h))\<rparr>)
      else Inl Out_of_range)"
  by (simp add: init_row_def set_coef_def)

lemma init_loop:
  assumes "\<forall>i\<in>set is. i < nver" and "distinct is"
    and "nver * 2 \<le> row_dimension A" and "nver \<le> column_dimension A"
  shows "\<exists>A'. for_each is (init_row nver h) A = Inr A'
           \<and> row_dimension A' = row_dimension A \<and> column_dimension A' = column_dimension A
           \<and> (\<forall>r c. (\<forall>i\<in>set is. \<not> (r = i \<and> c = i) \<and> \<not> (r = i + nver \<and> c = i))
                \<longrightarrow> coef A' r c = coef A r c)
           \<and> (\<forall>i\<in>set is. coef A' (i + nver) i = h)"
  using assms
proof (induction "is" arbitrary: A)
  case Nil
  show ?case by simp
next
  case (Cons i "is")
  let ?A1 = "A\<lparr>coef := (coef A)(i := (coef A i)(i := 0),
                 i + nver := (((coef A)(i := (coef A i)(i := 0))) (i + nver))(i := h))\<rparr>"
  have step: "init_row nver h i A = Inr ?A1"
    using Cons.prems by (subst init_row_eq) auto
  have "\<forall>i\<in>set is. i < nver" "distinct is"
    "nver * 2 \<le> row_dimension ?A1" "nver \<le> column_dimension ?A1"
    using Cons.prems by simp_all
  from Cons.IH [OF this] obtain A' where
    loop: "for_each is (init_row nver h) ?A1 = Inr A'"
    and dims: "row_dimension A' = row_dimension A" "column_dimension A' = column_dimension A"
    and rest: "\<forall>r c. (\<forall>i\<in>set is. \<not> (r = i \<and> c = i) \<and> \<not> (r = i + nver \<and> c = i))
                \<longrightarrow> coef A' r c = coef ?A1 r c"
    and vals: "\<forall>i\<in>set is. coef A' (i + nver) i = h"
    by auto
  have "\<forall>k\<in>set is. \<not> (i + nver = k \<and> i = k) \<and> \<not> (i + nver = k + nver \<and> i = k)"
    using Cons.prems(1,2) by auto
  then have "coef A' (i + nver) i = coef ?A1 (i + nver) i"
    using rest by blast
  then have here: "coef A' (i + nver) i = h"
    by simp
  have 1: "for_each (i # is) (init_row nver h) A = Inr A'"
    by (simp only: for_each.simps step and_then_Inr loop)
  have 2: "\<forall>r c. (\<forall>k\<in>set (i # is). \<not> (r = k \<and> c = k) \<and> \<not> (r = k + nver \<and> c = k))
                \<longrightarrow> coef A' r c = coef A r c"
  proof (intro allI impI)
    fix r c
    assume a: "\<forall>k\<in>set (i # is). \<not> (r = k \<and> c = k) \<and> \<not> (r = k + nver \<and> c = k)"
    then have "coef A' r c = coef ?A1 r c"
      using rest by simp
    also have "\<dots> = coef A r c"
      using a by auto
    finally show "coef A' r c = coef A r c" .
  qed
  from 1 2 dims here vals show ?case
    by (intro exI [of _ A']) simp
qed

lemma dense_ids_facts:
  assumes "map f xs = [0..<length xs]"
  shows "distinct (map f xs)" and "inj_on f (set xs)" and "\<forall>a\<in>set xs. f a < length xs"
    and "distinct xs"
proof -
  show d: "distinct (map f xs)"
    by (simp add: assms)
  then show "inj_on f (set xs)" and "distinct xs"
    by (simp_all add: distinct_map)
  have "set (map f xs) = {0..<length xs}"
    by (simp add: assms)
  then show "\<forall>a\<in>set xs. f a < length xs"
    by (metis atLeastLessThan_iff image_eqI set_map)
qed

lemma assemble_LHS_result:
  fixes s :: "('v, 'e) Mean_curvature_skeleton"
  assumes dense: "map (vertex_id (polyhedron s)) (vertices (polyhedron s))
                    = [0..<num_vertices (polyhedron s)]"
    and closed: "\<forall>v\<in>set (vertices (polyhedron s)). \<forall>e\<in>set (in_edges (polyhedron s) v).
                    source (polyhedron s) e \<in> set (vertices (polyhedron s))
                    \<and> edge_id (polyhedron s) e < length (edge_weight s)"
    and rows: "num_vertices (polyhedron s) * 2 \<le> row_dimension A"
    and cols: "num_vertices (polyhedron s) \<le> column_dimension A"
  shows "\<exists>A'. assemble_LHS s A = Inr A'
     \<and> row_dimension A' = row_dimension A \<and> column_dimension A' = column_dimension A
     \<and> (\<forall>v\<in>set (vertices (polyhedron s)).
          coef A' (vertex_id (polyhedron s) v) (vertex_id (polyhedron s) v)
            = - (\<Sum>e\<leftarrow>in_edges (polyhedron s) v. edge_weight s ! edge_id (polyhedron s) e * 2)
        \<and> coef A' (vertex_id (polyhedron s) v + num_vertices (polyhedron s))
                  (vertex_id (polyhedron s) v) = omega_H s
        \<and> (distinct (v # map (source (polyhedron s)) (in_edges (polyhedron s) v)) \<longrightarrow>
            (\<forall>e\<in>set (in_edges (polyhedron s) v).
               coef A' (vertex_id (polyhedron s) v)
                       (vertex_id (polyhedron s) (source (polyhedron s) e))
                 = edge_weight s ! edge_id (polyhedron s) e * 2 * omega_L s)))"
proof -
  let ?P = "polyhedron s"
  let ?n = "num_vertices ?P"
  let ?vs = "vertices ?P"
  let ?i = "vertex_id ?P"
  let ?j = "\<lambda>e. ?i (source ?P e)"
  let ?w = "\<lambda>e. edge_weight s ! edge_id ?P e * 2"
  have dense': "map ?i ?vs = [0..<length ?vs]"
    using dense by (simp add: num_vertices_def)
  note ids = dense_ids_facts [OF dense']
  have lt: "\<forall>v\<in>set ?vs. ?i v < ?n"
    using ids(3) by (simp add: num_vertices_def)
  from init_loop [of "[0..<?n]" ?n A "omega_H s"] rows cols obtain A1 where
    init: "for_each [0..<?n] (init_row ?n (omega_H s)) A = Inr A1"
    and dims1: "row_dimension A1 = row_dimension A" "column_dimension A1 = column_dimension A"
    and anchor1: "\<forall>i\<in>set [0..<?n]. coef A1 (i + ?n) i = omega_H s"
    by auto
  have pre: "\<forall>v\<in>set ?vs. ?i v < row_dimension A1 \<and> ?i v < column_dimension A1
           \<and> (\<forall>e\<in>set (in_edges ?P v). edge_id ?P e < length (edge_weight s)
                 \<and> ?j e < column_dimension A1)"
    using lt closed rows cols dims1 by fastforce
  from vertices_loop [OF ids(1) pre] obtain A' where
    loop: "for_each ?vs (vertex_row s) A1 = Inr A'"
    and dims: "row_dimension A' = row_dimension A1" "column_dimension A' = column_dimension A1"
    and other: "\<forall>r. r \<notin> ?i ` set ?vs \<longrightarrow> coef A' r = coef A1 r"
    and vals: "\<forall>v\<in>set ?vs. coef A' (?i v) (?i v) = - (\<Sum>e\<leftarrow>in_edges ?P v. ?w e)
                 \<and> (distinct (map ?j (in_edges ?P v)) \<and> ?i v \<notin> ?j ` set (in_edges ?P v)
                      \<longrightarrow> (\<forall>e\<in>set (in_edges ?P v). coef A' (?i v) (?j e) = ?w e * omega_L s))"
    by blast
  have result: "assemble_LHS s A = Inr A'"
    by (simp add: assemble_LHS_def Let_def init loop)
  have anchor: "coef A' (?i v + ?n) (?i v) = omega_H s" if v: "v \<in> set ?vs" for v
  proof -
    have "?i v + ?n \<notin> ?i ` set ?vs"
      using lt by fastforce
    then have "coef A' (?i v + ?n) = coef A1 (?i v + ?n)"
      using other by simp
    moreover have "?i v \<in> set [0..<?n]"
      using lt v by simp
    ultimately show ?thesis
      using anchor1 by simp
  qed
  have simple: "distinct (map ?j (in_edges ?P v)) \<and> ?i v \<notin> ?j ` set (in_edges ?P v)"
    if v: "v \<in> set ?vs" and d: "distinct (v # map (source ?P) (in_edges ?P v))" for v
  proof -
    have sub: "set (map (source ?P) (in_edges ?P v)) \<subseteq> set ?vs"
      using closed v by auto
    then have inj: "inj_on ?i (set (map (source ?P) (in_edges ?P v)))"
      using ids(2) by (rule inj_on_subset [rotated])
    have dsrc: "distinct (map (source ?P) (in_edges ?P v))"
      using d by simp
    have "distinct (map ?i (map (source ?P) (in_edges ?P v)))"
      unfolding distinct_map [of ?i] using dsrc inj by blast
    then have 1: "distinct (map ?j (in_edges ?P v))"
      by (simp add: comp_def)
    have "?i v \<noteq> ?j e" if "e \<in> set (in_edges ?P v)" for e
    proof -
      have "source ?P e \<in> set ?vs" "source ?P e \<noteq> v"
        using closed v that d by auto
      then show ?thesis
        using ids(2) v by (auto dest: inj_onD)
    qed
    then have 2: "?i v \<notin> ?j ` set (in_edges ?P v)"
      by auto
    from 1 2 show ?thesis ..
  qed
  show ?thesis
  proof (intro exI [of _ A'] conjI ballI impI)
    show "assemble_LHS s A = Inr A'" by (rule result)
    show "row_dimension A' = row_dimension A" by (simp add: dims dims1)
    show "column_dimension A' = column_dimension A" by (simp add: dims dims1)
  next
    fix v assume "v \<in> set ?vs"
    then show "coef A' (?i v) (?i v) = - (\<Sum>e\<leftarrow>in_edges ?P v. ?w e)"
      using vals by simp
  next
    fix v assume "v \<in> set ?vs"
    then show "coef A' (?i v + ?n) (?i v) = omega_H s"
      by (rule anchor)
  next
    fix v e
    assume "v \<in> set ?vs" "distinct (v # map (source ?P) (in_edges ?P v))"
      "e \<in> set (in_edges ?P v)"
    then show "coef A' (?i v) (?j e) = ?w e * omega_L s"
      using vals simple by blast
  qed
qed

subsection \<open>The right-hand sides that \<open>assemble_RHS\<close> builds\<close>

lemma zero_entry_eq:
  "zero_entry i (Bx, By, Bz) =
     (if i < length Bx \<and> i < length By \<and> i < length Bz
      then Inr (Bx[i := 0], By[i := 0], Bz[i := 0])
      else Inl Out_of_range)"
  by (simp add: zero_entry_def vector_set_def)

lemma anchor_entry_eq:
  "anchor_entry s nver vi (Bx, By, Bz) =
     (if vertex_id (polyhedron s) vi + nver < length Bx \<and> vertex_id (polyhedron s) vi + nver < length By
         \<and> vertex_id (polyhedron s) vi + nver < length Bz
      then Inr (Bx[vertex_id (polyhedron s) vi + nver := point_x (point (polyhedron s) vi) * omega_H s],
                By[vertex_id (polyhedron s) vi + nver := point_y (point (polyhedron s) vi) * omega_H s],
                Bz[vertex_id (polyhedron s) vi + nver := point_z (point (polyhedron s) vi) * omega_H s])
      else Inl Out_of_range)"
  by (simp add: anchor_entry_def vector_set_def Let_def)

lemma entries_loop:
  fixes body :: "'a \<Rightarrow> Vector \<times> Vector \<times> Vector \<Rightarrow> error + Vector \<times> Vector \<times> Vector"
  assumes body: "\<And>a Bx By Bz. body a (Bx, By, Bz) =
       (if f a < length Bx \<and> f a < length By \<and> f a < length Bz
        then Inr (Bx[f a := gx a], By[f a := gy a], Bz[f a := gz a])
        else Inl Out_of_range)"
    and "\<forall>a\<in>set as. f a < length Bx \<and> f a < length By \<and> f a < length Bz"
    and "distinct (map f as)"
  shows "\<exists>Bx' By' Bz'. for_each as body (Bx, By, Bz) = Inr (Bx', By', Bz')
           \<and> length Bx' = length Bx \<and> length By' = length By \<and> length Bz' = length Bz
           \<and> (\<forall>a\<in>set as. Bx' ! f a = gx a \<and> By' ! f a = gy a \<and> Bz' ! f a = gz a)
           \<and> (\<forall>k. k \<notin> f ` set as \<longrightarrow> Bx' ! k = Bx ! k \<and> By' ! k = By ! k \<and> Bz' ! k = Bz ! k)"
  using assms(2,3)
proof (induction as arbitrary: Bx By Bz)
  case Nil
  show ?case by simp
next
  case (Cons a as)
  let ?Bx = "Bx[f a := gx a]" and ?By = "By[f a := gy a]" and ?Bz = "Bz[f a := gz a]"
  have step: "body a (Bx, By, Bz) = Inr (?Bx, ?By, ?Bz)"
    using Cons.prems by (simp add: body)
  have "\<forall>a\<in>set as. f a < length ?Bx \<and> f a < length ?By \<and> f a < length ?Bz" "distinct (map f as)"
    using Cons.prems by simp_all
  from Cons.IH [OF this] obtain Bx' By' Bz' where
    loop: "for_each as body (?Bx, ?By, ?Bz) = Inr (Bx', By', Bz')"
    and len: "length Bx' = length Bx" "length By' = length By" "length Bz' = length Bz"
    and vals: "\<forall>a\<in>set as. Bx' ! f a = gx a \<and> By' ! f a = gy a \<and> Bz' ! f a = gz a"
    and rest: "\<forall>k. k \<notin> f ` set as \<longrightarrow> Bx' ! k = ?Bx ! k \<and> By' ! k = ?By ! k \<and> Bz' ! k = ?Bz ! k"
    by auto
  have "f a \<notin> f ` set as"
    using Cons.prems(2) by simp
  then have here: "Bx' ! f a = gx a \<and> By' ! f a = gy a \<and> Bz' ! f a = gz a"
    using rest Cons.prems(1) by simp
  have 1: "for_each (a # as) body (Bx, By, Bz) = Inr (Bx', By', Bz')"
    by (simp only: for_each.simps step and_then_Inr loop)
  have 2: "\<forall>k. k \<notin> f ` set (a # as) \<longrightarrow> Bx' ! k = Bx ! k \<and> By' ! k = By ! k \<and> Bz' ! k = Bz ! k"
    using rest by simp
  from 1 2 len here vals show ?case
    by (intro exI [of _ Bx'] exI [of _ By'] exI [of _ Bz']) simp
qed

lemma assemble_RHS_result:
  fixes s :: "('v, 'e) Mean_curvature_skeleton"
  assumes dense: "map (vertex_id (polyhedron s)) (vertices (polyhedron s))
                    = [0..<num_vertices (polyhedron s)]"
    and len: "num_vertices (polyhedron s) * 2 \<le> length Bx"
      "num_vertices (polyhedron s) * 2 \<le> length By"
      "num_vertices (polyhedron s) * 2 \<le> length Bz"
  shows "\<exists>Bx' By' Bz'. assemble_RHS s (Bx, By, Bz) = Inr (Bx', By', Bz')
     \<and> length Bx' = length Bx \<and> length By' = length By \<and> length Bz' = length Bz
     \<and> (\<forall>i<num_vertices (polyhedron s). Bx' ! i = 0 \<and> By' ! i = 0 \<and> Bz' ! i = 0)
     \<and> (\<forall>v\<in>set (vertices (polyhedron s)).
          Bx' ! (vertex_id (polyhedron s) v + num_vertices (polyhedron s))
            = point_x (point (polyhedron s) v) * omega_H s
        \<and> By' ! (vertex_id (polyhedron s) v + num_vertices (polyhedron s))
            = point_y (point (polyhedron s) v) * omega_H s
        \<and> Bz' ! (vertex_id (polyhedron s) v + num_vertices (polyhedron s))
            = point_z (point (polyhedron s) v) * omega_H s)"
proof -
  let ?P = "polyhedron s"
  let ?n = "num_vertices ?P"
  let ?vs = "vertices ?P"
  let ?i = "vertex_id ?P"
  have dense': "map ?i ?vs = [0..<length ?vs]"
    using dense by (simp add: num_vertices_def)
  note ids = dense_ids_facts [OF dense']
  have lt: "\<forall>v\<in>set ?vs. ?i v < ?n"
    using ids(3) by (simp add: num_vertices_def)
  have "\<forall>i\<in>set [0..<?n]. i < length Bx \<and> i < length By \<and> i < length Bz"
    and "distinct (map (\<lambda>i. i) [0..<?n])"
    using len by simp_all
  from entries_loop [of zero_entry "\<lambda>i. i" "\<lambda>i. 0" "\<lambda>i. 0" "\<lambda>i. 0", OF zero_entry_eq this]
  obtain Zx Zy Zz where
    zero: "for_each [0..<?n] zero_entry (Bx, By, Bz) = Inr (Zx, Zy, Zz)"
    and zlen: "length Zx = length Bx" "length Zy = length By" "length Zz = length Bz"
    and zvals: "\<forall>i\<in>set [0..<?n]. Zx ! i = 0 \<and> Zy ! i = 0 \<and> Zz ! i = 0"
    by blast
  have "\<forall>v\<in>set ?vs. ?i v + ?n < length Zx \<and> ?i v + ?n < length Zy \<and> ?i v + ?n < length Zz"
    using lt len zlen by fastforce
  moreover have "distinct (map (\<lambda>v. ?i v + ?n) ?vs)"
    using ids(1) by (simp add: distinct_map inj_on_def)
  ultimately obtain Bx' By' Bz' where
    anchor: "for_each ?vs (anchor_entry s ?n) (Zx, Zy, Zz) = Inr (Bx', By', Bz')"
    and alen: "length Bx' = length Zx" "length By' = length Zy" "length Bz' = length Zz"
    and avals: "\<forall>v\<in>set ?vs. Bx' ! (?i v + ?n) = point_x (point ?P v) * omega_H s
                  \<and> By' ! (?i v + ?n) = point_y (point ?P v) * omega_H s
                  \<and> Bz' ! (?i v + ?n) = point_z (point ?P v) * omega_H s"
    and arest: "\<forall>k. k \<notin> (\<lambda>v. ?i v + ?n) ` set ?vs
                  \<longrightarrow> Bx' ! k = Zx ! k \<and> By' ! k = Zy ! k \<and> Bz' ! k = Zz ! k"
    using entries_loop [of "anchor_entry s ?n" "\<lambda>v. ?i v + ?n"
        "\<lambda>v. point_x (point ?P v) * omega_H s" "\<lambda>v. point_y (point ?P v) * omega_H s"
        "\<lambda>v. point_z (point ?P v) * omega_H s" ?vs Zx Zy Zz, OF anchor_entry_eq]
    by blast
  have result: "assemble_RHS s (Bx, By, Bz) = Inr (Bx', By', Bz')"
    by (simp add: assemble_RHS_def Let_def zero anchor)
  have zeros: "Bx' ! k = 0 \<and> By' ! k = 0 \<and> Bz' ! k = 0" if "k < ?n" for k
  proof -
    have "k \<notin> (\<lambda>v. ?i v + ?n) ` set ?vs"
      using that by auto
    then show ?thesis
      using arest zvals that by simp
  qed
  from result zeros avals alen zlen show ?thesis
    by (intro exI [of _ Bx'] exI [of _ By'] exI [of _ Bz']) simp
qed

section \<open>The ids that the constructor assigns\<close>

lemma contract_geometry_mesh:
  assumes "contract_geometry s = Inr s'"
  shows "vertices (polyhedron s') = vertices (polyhedron s)"
    and "edges (polyhedron s') = edges (polyhedron s)"
    and "facets (polyhedron s') = facets (polyhedron s)"
    and "in_edges (polyhedron s') = in_edges (polyhedron s)"
    and "source (polyhedron s') = source (polyhedron s)"
    and "vertex_id (polyhedron s') = vertex_id (polyhedron s)"
    and "edge_id (polyhedron s') = edge_id (polyhedron s)"
    and "is_fixed (polyhedron s') = is_fixed (polyhedron s)"
    and "num_vertices (polyhedron s') = num_vertices (polyhedron s)"
    and "num_edges (polyhedron s') = num_edges (polyhedron s)"
  unfolding num_vertices_def num_edges_def
  by (subst contract_geometry_preserves(1) [OF assms], simp)+

lemma contract_geometry_members:
  assumes "contract_geometry s = Inr s'"
  shows "weight_calculator s' = weight_calculator s" and "m_solver s' = m_solver s"
    and "omega_L s' = omega_L s" and "omega_H s' = omega_H s"
  by (subst contract_geometry_preserves(2) [OF assms], simp)+



lemma constructor_fields [simp]:
  "vertices (polyhedron (Mean_curvature_skeleton P wL wH wc solver)) = vertices P"
  "edges (polyhedron (Mean_curvature_skeleton P wL wH wc solver)) = edges P"
  "in_edges (polyhedron (Mean_curvature_skeleton P wL wH wc solver)) = in_edges P"
  "source (polyhedron (Mean_curvature_skeleton P wL wH wc solver)) = source P"
  "point (polyhedron (Mean_curvature_skeleton P wL wH wc solver)) = point P"
  "edge_weight (Mean_curvature_skeleton P wL wH wc solver) = []"
  "weight_calculator (Mean_curvature_skeleton P wL wH wc solver) = wc"
  "m_solver (Mean_curvature_skeleton P wL wH wc solver) = solver"
  "omega_L (Mean_curvature_skeleton P wL wH wc solver) = wL"
  "omega_H (Mean_curvature_skeleton P wL wH wc solver) = wH"
  by (simp_all add: Mean_curvature_skeleton_def)





section \<open>What a contraction step leaves alone\<close>

lemma anchored_mesh:
  "vertices (polyhedron anchored) = [0, 1]"
  "edges (polyhedron anchored) = [(1, 0), (0, 1)]"
  "num_vertices (polyhedron anchored) = 2"
  "num_edges (polyhedron anchored) = 2"
  "in_edges (polyhedron anchored) 0 = [(1, 0)]"
  "in_edges (polyhedron anchored) (Suc 0) = [(0, 1)]"
  "source (polyhedron anchored) = fst"
  "vertex_id (polyhedron anchored) 0 = 0"
  "vertex_id (polyhedron anchored) (Suc 0) = 1"
  "edge_id (polyhedron anchored) (Suc 0, 0) = 0"
  "edge_id (polyhedron anchored) (0, Suc 0) = 1"
  "point (polyhedron anchored) 0 = Point 0 0 0"
  "point (polyhedron anchored) (Suc 0) = Point 5 0 0"
  "omega_L anchored = 1"
  "omega_H anchored = 1"
  "edge_weight anchored = []"
  "edge_weight (compute_edge_weight anchored) = [1 / 2, 1 / 2]"
  by (simp_all add: anchored_def segment_def Mean_curvature_skeleton_def num_vertices_def
      num_edges_def compute_edge_weight_eq span_weight_def)

text \<open>
  Claim C9. A contraction step that returns has changed nothing but the positions of
  the vertices and the cached edge weights: the vertex range, the edge range, the
  facets, the incoming edges of every vertex, the source of every edge, both id maps,
  the fixed flags, the weight calculator, the solver and both weights are the same
  before and after.
\<close>
theorem contract_geometry_frame:
  assumes "contract_geometry s = Inr s'"
  shows "vertices (polyhedron s') = vertices (polyhedron s)
       \<and> edges (polyhedron s') = edges (polyhedron s)
       \<and> facets (polyhedron s') = facets (polyhedron s)
       \<and> in_edges (polyhedron s') = in_edges (polyhedron s)
       \<and> source (polyhedron s') = source (polyhedron s)
       \<and> vertex_id (polyhedron s') = vertex_id (polyhedron s)
       \<and> edge_id (polyhedron s') = edge_id (polyhedron s)
       \<and> is_fixed (polyhedron s') = is_fixed (polyhedron s)
       \<and> num_vertices (polyhedron s') = num_vertices (polyhedron s)
       \<and> num_edges (polyhedron s') = num_edges (polyhedron s)
       \<and> weight_calculator s' = weight_calculator s
       \<and> m_solver s' = m_solver s
       \<and> omega_L s' = omega_L s
       \<and> omega_H s' = omega_H s
       \<and> polyhedron s' = (polyhedron s)\<lparr>point := point (polyhedron s')\<rparr>
       \<and> s' = s\<lparr>polyhedron := polyhedron s', edge_weight := edge_weight s'\<rparr>"
  using contract_geometry_mesh [OF assms] contract_geometry_members [OF assms]
    contract_geometry_preserves [OF assms]
  by blast

text \<open>
  On the two-vertex mesh the step returns and moves the first vertex from 0 to 2; the
  ranges, the ids and the weights are as before.
\<close>
theorem contract_geometry_frame_witness:
  "vertices (polyhedron (projr (contract_geometry anchored))) = [0, 1]
   \<and> edges (polyhedron (projr (contract_geometry anchored))) = [(1, 0), (0, 1)]
   \<and> source (polyhedron (projr (contract_geometry anchored))) = fst
   \<and> vertex_id (polyhedron (projr (contract_geometry anchored))) = vertex_id (polyhedron anchored)
   \<and> edge_id (polyhedron (projr (contract_geometry anchored))) = edge_id (polyhedron anchored)
   \<and> omega_L (projr (contract_geometry anchored)) = 1
   \<and> omega_H (projr (contract_geometry anchored)) = 1
   \<and> point (polyhedron (projr (contract_geometry anchored))) 0 = Point 2 0 0
   \<and> point (polyhedron anchored) 0 = Point 0 0 0"
proof -
  have "\<not> isl (contract_geometry anchored)"
    by code_simp
  then have run: "contract_geometry anchored = Inr (projr (contract_geometry anchored))"
    by simp
  have moved: "point (polyhedron (projr (contract_geometry anchored))) 0 = Point 2 0 0"
    by code_simp
  show ?thesis
    using contract_geometry_frame [OF run] moved by (simp add: anchored_mesh)
qed

section \<open>The entries of the linear system\<close>

text \<open>
  Claim C5. On a mesh of \<open>n\<close> vertices with the ids \<open>0, ..., n - 1\<close>, \<open>assemble_RHS\<close> on
  three vectors of at least \<open>2n\<close> entries returns; in each of the three vectors the
  entries \<open>[0, n)\<close> are zero, and the entry \<open>id v + n\<close> is the x (y, z) coordinate of the
  vertex \<open>v\<close>, as it is when \<open>assemble_RHS\<close> runs, times \<open>omega_H\<close>.
\<close>
theorem assemble_RHS_entries:
  fixes s :: "('v, 'e) Mean_curvature_skeleton"
  assumes "map (vertex_id (polyhedron s)) (vertices (polyhedron s)) = [0..<num_vertices (polyhedron s)]"
    and "num_vertices (polyhedron s) * 2 \<le> length Bx"
    and "num_vertices (polyhedron s) * 2 \<le> length By"
    and "num_vertices (polyhedron s) * 2 \<le> length Bz"
  shows "\<exists>Bx' By' Bz'. assemble_RHS s (Bx, By, Bz) = Inr (Bx', By', Bz')
     \<and> length Bx' = length Bx \<and> length By' = length By \<and> length Bz' = length Bz
     \<and> (\<forall>i<num_vertices (polyhedron s). Bx' ! i = 0 \<and> By' ! i = 0 \<and> Bz' ! i = 0)
     \<and> (\<forall>v\<in>set (vertices (polyhedron s)).
          Bx' ! (vertex_id (polyhedron s) v + num_vertices (polyhedron s))
            = point_x (point (polyhedron s) v) * omega_H s
        \<and> By' ! (vertex_id (polyhedron s) v + num_vertices (polyhedron s))
            = point_y (point (polyhedron s) v) * omega_H s
        \<and> Bz' ! (vertex_id (polyhedron s) v + num_vertices (polyhedron s))
            = point_z (point (polyhedron s) v) * omega_H s)"
  using assms by (rule assemble_RHS_result)

text \<open>
  On the two-vertex mesh with vertices at 0 and 5 and \<open>omega_H = 1\<close>, \<open>Bx\<close> is
  \<open>[0, 0, 0, 5]\<close>, and \<open>By\<close> and \<open>Bz\<close> are zero.
\<close>
theorem assemble_RHS_entries_witness:
  "\<exists>Bx' By' Bz'. assemble_RHS anchored (Vector 4, Vector 4, Vector 4) = Inr (Bx', By', Bz')
     \<and> Bx' ! 0 = 0 \<and> Bx' ! 1 = 0 \<and> Bx' ! 2 = 0 * 1 \<and> Bx' ! 3 = 5 * 1
     \<and> By' ! 0 = 0 \<and> By' ! 1 = 0 \<and> By' ! 2 = 0 * 1 \<and> By' ! 3 = 0 * 1
     \<and> Bz' ! 0 = 0 \<and> Bz' ! 1 = 0 \<and> Bz' ! 2 = 0 * 1 \<and> Bz' ! 3 = 0 * 1"
proof -
  have dense: "map (vertex_id (polyhedron anchored)) (vertices (polyhedron anchored))
                 = [0..<num_vertices (polyhedron anchored)]"
    by (simp add: anchored_mesh upt_rec)
  have len: "num_vertices (polyhedron anchored) * 2 \<le> length (Vector 4)"
    by (simp add: anchored_mesh Vector_def)
  from assemble_RHS_entries [OF dense len len len] obtain Bx' By' Bz' where
    run: "assemble_RHS anchored (Vector 4, Vector 4, Vector 4) = Inr (Bx', By', Bz')"
    and zeros: "\<forall>i<num_vertices (polyhedron anchored). Bx' ! i = 0 \<and> By' ! i = 0 \<and> Bz' ! i = 0"
    and anchors: "\<forall>v\<in>set (vertices (polyhedron anchored)).
          Bx' ! (vertex_id (polyhedron anchored) v + num_vertices (polyhedron anchored))
            = point_x (point (polyhedron anchored) v) * omega_H anchored
        \<and> By' ! (vertex_id (polyhedron anchored) v + num_vertices (polyhedron anchored))
            = point_y (point (polyhedron anchored) v) * omega_H anchored
        \<and> Bz' ! (vertex_id (polyhedron anchored) v + num_vertices (polyhedron anchored))
            = point_z (point (polyhedron anchored) v) * omega_H anchored"
    by blast
  from zeros have z: "Bx' ! 0 = 0" "Bx' ! 1 = 0" "By' ! 0 = 0" "By' ! 1 = 0" "Bz' ! 0 = 0" "Bz' ! 1 = 0"
    by (simp_all add: anchored_mesh)
  from anchors have a: "Bx' ! 2 = 0" "Bx' ! 3 = 5" "By' ! 2 = 0" "By' ! 3 = 0" "Bz' ! 2 = 0" "Bz' ! 3 = 0"
    by (simp_all add: anchored_mesh numeral_3_eq_3 numeral_2_eq_2)
  from run z a show ?thesis
    by simp
qed

lemma assemble_LHS_anchored:
  "\<not> isl (assemble_LHS (compute_edge_weight anchored) (Matrix 4 2))"
  "coef (projr (assemble_LHS (compute_edge_weight anchored) (Matrix 4 2))) 0 0 = - 1"
  "coef (projr (assemble_LHS (compute_edge_weight anchored) (Matrix 4 2))) 0 1 = 1"
  "coef (projr (assemble_LHS (compute_edge_weight anchored) (Matrix 4 2))) 2 0 = 1"
  by code_simp+

text \<open>
  Claim C3, as amended. On a mesh of \<open>n\<close> vertices with the ids \<open>0, ..., n - 1\<close>, whose
  incoming edges start at vertices of the mesh and have a cached weight,
  \<open>assemble_LHS\<close> on a matrix of at least \<open>2n\<close> rows and \<open>n\<close> columns returns, and for
  every vertex \<open>v\<close> with id \<open>i\<close>: the diagonal entry \<open>A[i][i]\<close> is the negative sum of
  twice the cached weight of the incoming edges of \<open>v\<close>; the entry \<open>A[i + n][i]\<close> is
  \<open>omega_H\<close>; and, when the incoming edges of \<open>v\<close> start at pairwise different vertices
  other than \<open>v\<close>, the entry \<open>A[i][j]\<close> for the source (with id \<open>j\<close>) of an incoming edge
  is twice the cached weight of the edge times \<open>omega_L\<close>. The source doubles every cached
  weight before it uses it: \<open>wij = edge_weight[...] * 2.0\<close>.
\<close>
theorem assemble_LHS_entries:
  fixes s :: "('v, 'e) Mean_curvature_skeleton"
  assumes "map (vertex_id (polyhedron s)) (vertices (polyhedron s)) = [0..<num_vertices (polyhedron s)]"
    and "\<forall>v\<in>set (vertices (polyhedron s)). \<forall>e\<in>set (in_edges (polyhedron s) v).
           source (polyhedron s) e \<in> set (vertices (polyhedron s))
           \<and> edge_id (polyhedron s) e < length (edge_weight s)"
    and "num_vertices (polyhedron s) * 2 \<le> row_dimension A"
    and "num_vertices (polyhedron s) \<le> column_dimension A"
  shows "\<exists>A'. assemble_LHS s A = Inr A'
     \<and> row_dimension A' = row_dimension A \<and> column_dimension A' = column_dimension A
     \<and> (\<forall>v\<in>set (vertices (polyhedron s)).
          coef A' (vertex_id (polyhedron s) v) (vertex_id (polyhedron s) v)
            = - (\<Sum>e\<leftarrow>in_edges (polyhedron s) v. edge_weight s ! edge_id (polyhedron s) e * 2)
        \<and> coef A' (vertex_id (polyhedron s) v + num_vertices (polyhedron s))
                  (vertex_id (polyhedron s) v) = omega_H s
        \<and> (distinct (v # map (source (polyhedron s)) (in_edges (polyhedron s) v)) \<longrightarrow>
            (\<forall>e\<in>set (in_edges (polyhedron s) v).
               coef A' (vertex_id (polyhedron s) v)
                       (vertex_id (polyhedron s) (source (polyhedron s) e))
                 = edge_weight s ! edge_id (polyhedron s) e * 2 * omega_L s)))"
  using assms by (rule assemble_LHS_result)

text \<open>
  On the two-vertex mesh both cached weights are \<open>1/2\<close>; the matrix has \<open>-1\<close> on the
  diagonal, \<open>1\<close> beside it and \<open>1\<close> in the anchoring block.
\<close>
theorem assemble_LHS_entries_witness:
  "\<exists>A'. assemble_LHS (compute_edge_weight anchored) (Matrix 4 2) = Inr A'
     \<and> coef A' 0 0 = - (1 / 2 * 2) \<and> coef A' 2 0 = 1 \<and> coef A' 0 1 = 1 / 2 * 2 * 1
     \<and> coef A' 1 1 = - (1 / 2 * 2) \<and> coef A' 3 1 = 1 \<and> coef A' 1 0 = 1 / 2 * 2 * 1"
proof -
  let ?s = "compute_edge_weight anchored"
  have dense: "map (vertex_id (polyhedron ?s)) (vertices (polyhedron ?s))
                 = [0..<num_vertices (polyhedron ?s)]"
    by (simp add: anchored_mesh upt_rec)
  have closed: "\<forall>v\<in>set (vertices (polyhedron ?s)). \<forall>e\<in>set (in_edges (polyhedron ?s) v).
           source (polyhedron ?s) e \<in> set (vertices (polyhedron ?s))
           \<and> edge_id (polyhedron ?s) e < length (edge_weight ?s)"
    by (simp add: anchored_mesh)
  have dims: "num_vertices (polyhedron ?s) * 2 \<le> row_dimension (Matrix 4 2)"
    "num_vertices (polyhedron ?s) \<le> column_dimension (Matrix 4 2)"
    by (simp_all add: anchored_mesh Matrix_def)
  from assemble_LHS_entries [OF dense closed dims] obtain A' where
    run: "assemble_LHS ?s (Matrix 4 2) = Inr A'"
    and rows: "\<forall>v\<in>set (vertices (polyhedron ?s)).
          coef A' (vertex_id (polyhedron ?s) v) (vertex_id (polyhedron ?s) v)
            = - (\<Sum>e\<leftarrow>in_edges (polyhedron ?s) v. edge_weight ?s ! edge_id (polyhedron ?s) e * 2)
        \<and> coef A' (vertex_id (polyhedron ?s) v + num_vertices (polyhedron ?s))
                  (vertex_id (polyhedron ?s) v) = omega_H ?s
        \<and> (distinct (v # map (source (polyhedron ?s)) (in_edges (polyhedron ?s) v)) \<longrightarrow>
            (\<forall>e\<in>set (in_edges (polyhedron ?s) v).
               coef A' (vertex_id (polyhedron ?s) v)
                       (vertex_id (polyhedron ?s) (source (polyhedron ?s) e))
                 = edge_weight ?s ! edge_id (polyhedron ?s) e * 2 * omega_L ?s))"
    by blast
  from rows have "coef A' 0 0 = - 1" "coef A' 2 0 = 1" "coef A' 0 1 = 1"
    "coef A' 1 1 = - 1" "coef A' 3 1 = 1" "coef A' 1 0 = 1"
    by (simp_all add: anchored_mesh numeral_3_eq_3 numeral_2_eq_2)
  with run show ?thesis
    by simp
qed

text \<open>
  Claim C3 as the specification states it (the diagonal is the negative sum of the
  weights, the neighbour entry is the weight times \<open>omega_L\<close>) fails on the two-vertex
  mesh: the first vertex has one incoming edge, of cached weight \<open>1/2\<close>, and with
  \<open>omega_L = 1\<close> the code writes \<open>-1\<close> on the diagonal and \<open>1\<close> beside it.
\<close>
theorem assemble_LHS_entries_counterexample:
  "in_edges (polyhedron (compute_edge_weight anchored)) 0 = [(1, 0)]
   \<and> vertex_id (polyhedron (compute_edge_weight anchored)) 0 = 0
   \<and> vertex_id (polyhedron (compute_edge_weight anchored))
        (source (polyhedron (compute_edge_weight anchored)) (1, 0)) = 1
   \<and> edge_weight (compute_edge_weight anchored)
        ! edge_id (polyhedron (compute_edge_weight anchored)) (1, 0) = 1 / 2
   \<and> omega_L (compute_edge_weight anchored) = 1
   \<and> \<not> isl (assemble_LHS (compute_edge_weight anchored) (Matrix 4 2))
   \<and> coef (projr (assemble_LHS (compute_edge_weight anchored) (Matrix 4 2))) 0 0 = - 1
   \<and> coef (projr (assemble_LHS (compute_edge_weight anchored) (Matrix 4 2))) 0 0
        \<noteq> - (edge_weight (compute_edge_weight anchored)
               ! edge_id (polyhedron (compute_edge_weight anchored)) (1, 0))
   \<and> coef (projr (assemble_LHS (compute_edge_weight anchored) (Matrix 4 2))) 0 1 = 1
   \<and> coef (projr (assemble_LHS (compute_edge_weight anchored) (Matrix 4 2))) 0 1
        \<noteq> edge_weight (compute_edge_weight anchored)
               ! edge_id (polyhedron (compute_edge_weight anchored)) (1, 0)
            * omega_L (compute_edge_weight anchored)"
  using assemble_LHS_anchored by (simp add: anchored_mesh)

section \<open>The positions that a contraction step writes\<close>

lemma contract_geometry_positions:
  assumes "contract_geometry s = Inr s'"
  shows "\<exists>A Bx By Bz.
       assemble_LHS (compute_edge_weight s)
         (Matrix (num_vertices (polyhedron s) * 2) (num_vertices (polyhedron s))) = Inr A
     \<and> assemble_RHS (compute_edge_weight s)
         (Vector (num_vertices (polyhedron s) * 2), Vector (num_vertices (polyhedron s) * 2),
          Vector (num_vertices (polyhedron s) * 2)) = Inr (Bx, By, Bz)
     \<and> (\<forall>v\<in>set (vertices (polyhedron s)). point (polyhedron s') v =
          Point (snd (linear_solver_non_symmetric (m_solver s) A Bx
                        (Vector (num_vertices (polyhedron s)))) ! vertex_id (polyhedron s) v)
                (snd (linear_solver_non_symmetric (m_solver s) A By
                        (Vector (num_vertices (polyhedron s)))) ! vertex_id (polyhedron s) v)
                (snd (linear_solver_non_symmetric (m_solver s) A Bz
                        (Vector (num_vertices (polyhedron s)))) ! vertex_id (polyhedron s) v))"
proof -
  from assms obtain A Bx By Bz X Y Z where
    A: "assemble_LHS (compute_edge_weight s)
         (Matrix (num_vertices (polyhedron s) * 2) (num_vertices (polyhedron s))) = Inr A"
    and B: "assemble_RHS (compute_edge_weight s)
         (Vector (num_vertices (polyhedron s) * 2), Vector (num_vertices (polyhedron s) * 2),
          Vector (num_vertices (polyhedron s) * 2)) = Inr (Bx, By, Bz)"
    and X: "X = snd (linear_solver_non_symmetric (m_solver s) A Bx (Vector (num_vertices (polyhedron s))))"
    and Y: "Y = snd (linear_solver_non_symmetric (m_solver s) A By (Vector (num_vertices (polyhedron s))))"
    and Z: "Z = snd (linear_solver_non_symmetric (m_solver s) A Bz (Vector (num_vertices (polyhedron s))))"
    and loop: "for_each (vertices (polyhedron s)) (copy_to_mesh X Y Z) (compute_edge_weight s) = Inr s'"
    by (rule contract_geometry_Inr)
  have "\<forall>v\<in>set (vertices (polyhedron s)). point (polyhedron s') v =
          Point (X ! vertex_id (polyhedron s) v) (Y ! vertex_id (polyhedron s) v)
                (Z ! vertex_id (polyhedron s) v)"
    using copy_loop_Inr(3) [OF loop] by simp
  with A B show ?thesis
    unfolding X Y Z by blast
qed

text \<open>
  The step hands the mesh to the weight calculator and reads the fixed flags nowhere
  else: when the flags are changed in a way that leaves the weights of the edges as
  they are, the step ends as before, with the changed flags.
\<close>

lemma assemble_LHS_flag [simp]:
  "assemble_LHS (s\<lparr>polyhedron := (polyhedron s)\<lparr>is_fixed := g\<rparr>\<rparr>) = assemble_LHS s"
proof -
  let ?t = "s\<lparr>polyhedron := (polyhedron s)\<lparr>is_fixed := g\<rparr>\<rparr>"
  have body: "in_edge_body ?t = in_edge_body s"
    by (simp add: fun_eq_iff in_edge_body_def)
  have row: "vertex_row ?t = vertex_row s"
    by (simp add: fun_eq_iff vertex_row_def body)
  show ?thesis
    by (simp add: fun_eq_iff assemble_LHS_def row num_vertices_def)
qed

lemma assemble_RHS_flag [simp]:
  "assemble_RHS (s\<lparr>polyhedron := (polyhedron s)\<lparr>is_fixed := g\<rparr>\<rparr>) = assemble_RHS s"
proof -
  let ?t = "s\<lparr>polyhedron := (polyhedron s)\<lparr>is_fixed := g\<rparr>\<rparr>"
  have body: "anchor_entry ?t = anchor_entry s"
    by (simp add: fun_eq_iff anchor_entry_def)
  show ?thesis
    by (simp add: fun_eq_iff assemble_RHS_def body num_vertices_def)
qed

lemma copy_loop_flag:
  "for_each vs (copy_to_mesh X Y Z) (s\<lparr>polyhedron := (polyhedron s)\<lparr>is_fixed := g\<rparr>\<rparr>)
     = map_sum id (\<lambda>t. t\<lparr>polyhedron := (polyhedron t)\<lparr>is_fixed := g\<rparr>\<rparr>)
         (for_each vs (copy_to_mesh X Y Z) s)"
  by (simp add: copy_loop_eq cong: if_cong)

lemma compute_edge_weight_flag:
  assumes "\<forall>e\<in>set (edges (polyhedron s)).
             weight_calculator s e ((polyhedron s)\<lparr>is_fixed := g\<rparr>)
               = weight_calculator s e (polyhedron s)"
  shows "compute_edge_weight (s\<lparr>polyhedron := (polyhedron s)\<lparr>is_fixed := g\<rparr>\<rparr>)
           = (compute_edge_weight s)\<lparr>polyhedron := (polyhedron s)\<lparr>is_fixed := g\<rparr>\<rparr>"
proof -
  have "map (\<lambda>e. weight_calculator s e ((polyhedron s)\<lparr>is_fixed := g\<rparr>)) (edges (polyhedron s))
      = map (\<lambda>e. weight_calculator s e (polyhedron s)) (edges (polyhedron s))"
    using assms by (simp cong: map_cong)
  then show ?thesis
    by (simp add: compute_edge_weight_eq)
qed

lemma contract_geometry_flag:
  assumes "\<forall>e\<in>set (edges (polyhedron s)).
             weight_calculator s e ((polyhedron s)\<lparr>is_fixed := g\<rparr>)
               = weight_calculator s e (polyhedron s)"
  shows "contract_geometry (s\<lparr>polyhedron := (polyhedron s)\<lparr>is_fixed := g\<rparr>\<rparr>)
           = map_sum id (\<lambda>t. t\<lparr>polyhedron := (polyhedron t)\<lparr>is_fixed := g\<rparr>\<rparr>)
               (contract_geometry s)"
proof -
  let ?n = "num_vertices (polyhedron s)"
  let ?c = "compute_edge_weight s"
  have cew: "compute_edge_weight (s\<lparr>polyhedron := (polyhedron s)\<lparr>is_fixed := g\<rparr>\<rparr>)
      = ?c\<lparr>polyhedron := (polyhedron ?c)\<lparr>is_fixed := g\<rparr>\<rparr>"
    using compute_edge_weight_flag [OF assms] by simp
  have n: "num_vertices ((polyhedron s)\<lparr>is_fixed := g\<rparr>) = ?n"
    by (simp add: num_vertices_def)
  show ?thesis
  proof (cases "assemble_LHS ?c (Matrix (?n * 2) ?n)")
    case (Inl e)
    then show ?thesis
      by (simp add: contract_geometry_def Let_def cew n del: compute_edge_weight_fields)
        (simp add: n)
  next
    case A: (Inr A)
    show ?thesis
    proof (cases "assemble_RHS ?c (Vector (?n * 2), Vector (?n * 2), Vector (?n * 2))")
      case (Inl e)
      then show ?thesis
        using A
        by (simp add: contract_geometry_def Let_def cew n del: compute_edge_weight_fields)
          (simp add: n)
    next
      case (Inr B)
      then show ?thesis
        using A
        by (simp add: contract_geometry_def Let_def cew n case_prod_beta copy_loop_flag
            del: compute_edge_weight_fields) (simp add: n case_prod_beta)
    qed
  qed
qed

text \<open>
  Claim C4, as amended. A contraction step that returns has given every vertex of the
  mesh, whatever its fixed flag, the position that the three solves return for its id:
  the system is assembled from the mesh as it is before the step, and the new point of
  \<open>v\<close> is \<open>(X[id v], Y[id v], Z[id v])\<close>. The step does not change the flags, and its
  own code does not read them: with any other flags on the same mesh the step returns
  the same object (but for the flags), provided that the weight calculator, which is
  handed the whole mesh, gives the edges the same weights under these flags.
\<close>
theorem contract_geometry_moves_fixed_vertices:
  assumes "contract_geometry s = Inr s'"
  shows "(\<exists>A Bx By Bz.
       assemble_LHS (compute_edge_weight s)
         (Matrix (num_vertices (polyhedron s) * 2) (num_vertices (polyhedron s))) = Inr A
     \<and> assemble_RHS (compute_edge_weight s)
         (Vector (num_vertices (polyhedron s) * 2), Vector (num_vertices (polyhedron s) * 2),
          Vector (num_vertices (polyhedron s) * 2)) = Inr (Bx, By, Bz)
     \<and> (\<forall>v\<in>set (vertices (polyhedron s)). point (polyhedron s') v =
          Point (snd (linear_solver_non_symmetric (m_solver s) A Bx
                        (Vector (num_vertices (polyhedron s)))) ! vertex_id (polyhedron s) v)
                (snd (linear_solver_non_symmetric (m_solver s) A By
                        (Vector (num_vertices (polyhedron s)))) ! vertex_id (polyhedron s) v)
                (snd (linear_solver_non_symmetric (m_solver s) A Bz
                        (Vector (num_vertices (polyhedron s)))) ! vertex_id (polyhedron s) v)))
     \<and> is_fixed (polyhedron s') = is_fixed (polyhedron s)
     \<and> (\<forall>g. (\<forall>e\<in>set (edges (polyhedron s)).
                weight_calculator s e ((polyhedron s)\<lparr>is_fixed := g\<rparr>)
                  = weight_calculator s e (polyhedron s))
            \<longrightarrow> contract_geometry (s\<lparr>polyhedron := (polyhedron s)\<lparr>is_fixed := g\<rparr>\<rparr>)
                  = Inr (s'\<lparr>polyhedron := (polyhedron s')\<lparr>is_fixed := g\<rparr>\<rparr>))"
proof (intro conjI allI impI)
  show "\<exists>A Bx By Bz.
       assemble_LHS (compute_edge_weight s)
         (Matrix (num_vertices (polyhedron s) * 2) (num_vertices (polyhedron s))) = Inr A
     \<and> assemble_RHS (compute_edge_weight s)
         (Vector (num_vertices (polyhedron s) * 2), Vector (num_vertices (polyhedron s) * 2),
          Vector (num_vertices (polyhedron s) * 2)) = Inr (Bx, By, Bz)
     \<and> (\<forall>v\<in>set (vertices (polyhedron s)). point (polyhedron s') v =
          Point (snd (linear_solver_non_symmetric (m_solver s) A Bx
                        (Vector (num_vertices (polyhedron s)))) ! vertex_id (polyhedron s) v)
                (snd (linear_solver_non_symmetric (m_solver s) A By
                        (Vector (num_vertices (polyhedron s)))) ! vertex_id (polyhedron s) v)
                (snd (linear_solver_non_symmetric (m_solver s) A Bz
                        (Vector (num_vertices (polyhedron s)))) ! vertex_id (polyhedron s) v))"
    by (rule contract_geometry_positions [OF assms])
  show "is_fixed (polyhedron s') = is_fixed (polyhedron s)"
    by (rule contract_geometry_mesh(8) [OF assms])
next
  fix g
  assume "\<forall>e\<in>set (edges (polyhedron s)).
            weight_calculator s e ((polyhedron s)\<lparr>is_fixed := g\<rparr>)
              = weight_calculator s e (polyhedron s)"
  from contract_geometry_flag [OF this]
  show "contract_geometry (s\<lparr>polyhedron := (polyhedron s)\<lparr>is_fixed := g\<rparr>\<rparr>)
          = Inr (s'\<lparr>polyhedron := (polyhedron s')\<lparr>is_fixed := g\<rparr>\<rparr>)"
    by (simp add: assms)
qed

lemma anchored_run:
  "\<not> isl (contract_geometry anchored)"
  "point (polyhedron (projr (contract_geometry anchored))) 0 = Point 2 0 0"
  "point (polyhedron (projr (contract_geometry anchored))) 1 = Point 3 0 0"
  by code_simp+

text \<open>
  On the two-vertex mesh the first vertex carries the fixed flag; its new position is
  what the solver returns in \<open>X[0], Y[0], Z[0]\<close>. The weight of the example does not
  look at the flags, and with all flags cleared the step returns the same object.
\<close>
theorem contract_geometry_moves_fixed_vertices_witness:
  "(\<exists>A Bx By Bz.
       assemble_LHS (compute_edge_weight anchored) (Matrix 4 2) = Inr A
     \<and> assemble_RHS (compute_edge_weight anchored) (Vector 4, Vector 4, Vector 4) = Inr (Bx, By, Bz)
     \<and> point (polyhedron (projr (contract_geometry anchored))) 0 =
          Point (snd (linear_solver_non_symmetric normal_equations_2 A Bx (Vector 2)) ! 0)
                (snd (linear_solver_non_symmetric normal_equations_2 A By (Vector 2)) ! 0)
                (snd (linear_solver_non_symmetric normal_equations_2 A Bz (Vector 2)) ! 0))
   \<and> is_fixed (polyhedron anchored) 0
   \<and> is_fixed (polyhedron (projr (contract_geometry anchored))) 0
   \<and> contract_geometry (anchored\<lparr>polyhedron := (polyhedron anchored)\<lparr>is_fixed := (\<lambda>v. False)\<rparr>\<rparr>)
       = Inr ((projr (contract_geometry anchored))
               \<lparr>polyhedron := (polyhedron (projr (contract_geometry anchored)))
                                \<lparr>is_fixed := (\<lambda>v. False)\<rparr>\<rparr>)"
proof -
  have run: "contract_geometry anchored = Inr (projr (contract_geometry anchored))"
    using anchored_run(1) by simp
  have solver: "m_solver anchored = normal_equations_2"
    by (simp add: anchored_def)
  have flag: "is_fixed (polyhedron anchored) 0"
    by (simp add: anchored_def segment_def Mean_curvature_skeleton_def)
  have blind: "\<forall>e\<in>set (edges (polyhedron anchored)).
      weight_calculator anchored e ((polyhedron anchored)\<lparr>is_fixed := (\<lambda>v. False)\<rparr>)
        = weight_calculator anchored e (polyhedron anchored)"
    by (simp add: anchored_def span_weight_def)
  note inst = contract_geometry_moves_fixed_vertices [OF run]
  from inst have 1: "\<exists>A Bx By Bz.
       assemble_LHS (compute_edge_weight anchored) (Matrix 4 2) = Inr A
     \<and> assemble_RHS (compute_edge_weight anchored) (Vector 4, Vector 4, Vector 4) = Inr (Bx, By, Bz)
     \<and> point (polyhedron (projr (contract_geometry anchored))) 0 =
          Point (snd (linear_solver_non_symmetric normal_equations_2 A Bx (Vector 2)) ! 0)
                (snd (linear_solver_non_symmetric normal_equations_2 A By (Vector 2)) ! 0)
                (snd (linear_solver_non_symmetric normal_equations_2 A Bz (Vector 2)) ! 0)"
    by (auto simp: anchored_mesh solver)
  from inst flag have 2: "is_fixed (polyhedron (projr (contract_geometry anchored))) 0"
    by simp
  from inst blind have 3:
    "contract_geometry (anchored\<lparr>polyhedron := (polyhedron anchored)\<lparr>is_fixed := (\<lambda>v. False)\<rparr>\<rparr>)
       = Inr ((projr (contract_geometry anchored))
               \<lparr>polyhedron := (polyhedron (projr (contract_geometry anchored)))
                                \<lparr>is_fixed := (\<lambda>v. False)\<rparr>\<rparr>)"
    by blast
  from 1 flag 2 3 show ?thesis by blast
qed

text \<open>
  Claim C4 as the specification states it (a fixed vertex keeps its position) fails on
  the two-vertex mesh: the first vertex carries the fixed flag and lies at \<open>(0, 0, 0)\<close>;
  the step returns, the flag is still set, and the vertex lies at \<open>(2, 0, 0)\<close>, where the
  least-squares solution puts it.
\<close>
theorem fixed_vertex_counterexample:
  "is_fixed (polyhedron anchored) 0
   \<and> point (polyhedron anchored) 0 = Point 0 0 0
   \<and> \<not> isl (contract_geometry anchored)
   \<and> is_fixed (polyhedron (projr (contract_geometry anchored))) 0
   \<and> point (polyhedron (projr (contract_geometry anchored))) 0 = Point 2 0 0
   \<and> point (polyhedron (projr (contract_geometry anchored))) 0 \<noteq> point (polyhedron anchored) 0"
proof -
  have run: "contract_geometry anchored = Inr (projr (contract_geometry anchored))"
    using anchored_run(1) by simp
  have flag: "is_fixed (polyhedron anchored) 0"
    by (simp add: anchored_def segment_def Mean_curvature_skeleton_def)
  then have "is_fixed (polyhedron (projr (contract_geometry anchored))) 0"
    using contract_geometry_mesh(8) [OF run] by simp
  with flag anchored_run show ?thesis
    by (simp add: anchored_mesh)
qed

section \<open>What the solver reports and what the step does with it\<close>

lemma and_then_eq_Inl:
  "and_then r f = Inl e \<longleftrightarrow> r = Inl e \<or> (\<exists>a. r = Inr a \<and> f a = Inl e)"
  by (cases r) simp_all

lemma for_each_error:
  assumes "\<And>a t e. body a t = Inl e \<Longrightarrow> e = Out_of_range"
    and "for_each as body s = Inl e"
  shows "e = Out_of_range"
  using assms(2)
proof (induction as arbitrary: s)
  case Nil
  then show ?case by simp
next
  case (Cons a as)
  then show ?case
    using assms(1) by (auto simp: and_then_eq_Inl)
qed

lemma vertex_row_error: "vertex_row s v A = Inl e \<Longrightarrow> e = Out_of_range"
proof -
  assume a: "vertex_row s v A = Inl e"
  have body: "in_edge_body s i x t = Inl e' \<Longrightarrow> e' = Out_of_range" for i x t e'
    by (cases t) (simp add: in_edge_body_eq split: if_splits)
  have loop: "for_each es (in_edge_body s i) t = Inl e' \<Longrightarrow> e' = Out_of_range" for es i t e'
    by (rule for_each_error [of "in_edge_body s i"]) (rule body)
  from a show ?thesis
    by (auto simp: vertex_row_def Let_def and_then_eq_Inl set_coef_def
        dest: loop split: if_splits)
qed

lemma assemble_LHS_error: "assemble_LHS s A = Inl e \<Longrightarrow> e = Out_of_range"
proof -
  assume a: "assemble_LHS s A = Inl e"
  have init: "init_row n h i t = Inl e' \<Longrightarrow> e' = Out_of_range" for n h i t e'
    by (simp add: init_row_eq split: if_splits)
  have loop1: "for_each is (init_row n h) t = Inl e' \<Longrightarrow> e' = Out_of_range" for "is" n h t e'
    by (rule for_each_error [of "init_row n h"]) (rule init)
  have loop2: "for_each vs (vertex_row s) t = Inl e' \<Longrightarrow> e' = Out_of_range" for vs t e'
    by (rule for_each_error [of "vertex_row s"]) (rule vertex_row_error)
  from a show ?thesis
    by (auto simp: assemble_LHS_def Let_def and_then_eq_Inl dest: loop1 loop2)
qed

lemma assemble_RHS_error: "assemble_RHS s B = Inl e \<Longrightarrow> e = Out_of_range"
proof -
  assume a: "assemble_RHS s B = Inl e"
  have zero: "zero_entry i t = Inl e' \<Longrightarrow> e' = Out_of_range" for i t e'
    by (cases t) (simp add: zero_entry_eq split: if_splits)
  have anchor: "anchor_entry s n v t = Inl e' \<Longrightarrow> e' = Out_of_range" for n v t e'
    by (cases t) (simp add: anchor_entry_eq split: if_splits)
  have loop1: "for_each is zero_entry t = Inl e' \<Longrightarrow> e' = Out_of_range" for "is" t e'
    by (rule for_each_error [of zero_entry]) (rule zero)
  have loop2: "for_each vs (anchor_entry s n) t = Inl e' \<Longrightarrow> e' = Out_of_range" for vs n t e'
    by (rule for_each_error [of "anchor_entry s n"]) (rule anchor)
  from a show ?thesis
    by (auto simp: assemble_RHS_def Let_def and_then_eq_Inl dest: loop1 loop2)
qed

lemma contract_geometry_error: "contract_geometry s = Inl e \<Longrightarrow> e = Out_of_range"
proof -
  assume a: "contract_geometry s = Inl e"
  have copy: "copy_to_mesh X Y Z v t = Inl e' \<Longrightarrow> e' = Out_of_range"
    for X Y Z v e' and t :: "('a, 'b) Mean_curvature_skeleton"
    by (simp add: copy_to_mesh_eq split: if_splits)
  have loop: "for_each vs (copy_to_mesh X Y Z) t = Inl e' \<Longrightarrow> e' = Out_of_range"
    for X Y Z vs e' and t :: "('a, 'b) Mean_curvature_skeleton"
    by (rule for_each_error [of "copy_to_mesh X Y Z"]) (rule copy)
  from a show ?thesis
    by (auto simp: contract_geometry_def Let_def and_then_eq_Inl case_prod_beta
        dest: assemble_LHS_error assemble_RHS_error loop)
qed

lemma assemble_LHS_solver [simp]: "assemble_LHS (s\<lparr>m_solver := S\<rparr>) = assemble_LHS s"
proof -
  have body: "in_edge_body (s\<lparr>m_solver := S\<rparr>) = in_edge_body s"
    by (simp add: fun_eq_iff in_edge_body_def)
  have row: "vertex_row (s\<lparr>m_solver := S\<rparr>) = vertex_row s"
    by (simp add: fun_eq_iff vertex_row_def body)
  show ?thesis
    by (simp add: fun_eq_iff assemble_LHS_def row)
qed

lemma assemble_RHS_solver [simp]: "assemble_RHS (s\<lparr>m_solver := S\<rparr>) = assemble_RHS s"
proof -
  have body: "anchor_entry (s\<lparr>m_solver := S\<rparr>) = anchor_entry s"
    by (simp add: fun_eq_iff anchor_entry_def)
  show ?thesis
    by (simp add: fun_eq_iff assemble_RHS_def body)
qed

lemma copy_loop_solver:
  "for_each vs (copy_to_mesh X Y Z) (s\<lparr>m_solver := S\<rparr>)
     = map_sum id (\<lambda>t. t\<lparr>m_solver := S\<rparr>) (for_each vs (copy_to_mesh X Y Z) s)"
  by (simp add: copy_loop_eq cong: if_cong)

lemma contract_geometry_solver:
  assumes "\<And>A B X. snd (linear_solver_non_symmetric S A B X)
                     = snd (linear_solver_non_symmetric (m_solver s) A B X)"
  shows "contract_geometry (s\<lparr>m_solver := S\<rparr>)
           = map_sum id (\<lambda>t. t\<lparr>m_solver := S\<rparr>) (contract_geometry s)"
proof -
  let ?n = "num_vertices (polyhedron s)"
  have cew: "compute_edge_weight (s\<lparr>m_solver := S\<rparr>) = (compute_edge_weight s)\<lparr>m_solver := S\<rparr>"
    by (simp add: compute_edge_weight_eq)
  show ?thesis
  proof (cases "assemble_LHS (compute_edge_weight s) (Matrix (?n * 2) ?n)")
    case (Inl e)
    then show ?thesis
      by (simp add: contract_geometry_def Let_def cew)
  next
    case A: (Inr A)
    show ?thesis
    proof (cases "assemble_RHS (compute_edge_weight s) (Vector (?n * 2), Vector (?n * 2), Vector (?n * 2))")
      case (Inl e)
      then show ?thesis
        by (simp add: contract_geometry_def Let_def cew A)
    next
      case (Inr B)
      then show ?thesis
        by (simp add: contract_geometry_def Let_def cew A case_prod_beta assms copy_loop_solver)
    qed
  qed
qed

text \<open>
  Claim C1, as amended. A contraction step never fails with \<open>NumericalError\<close>, and what
  the solver reports has no effect on it: with a solver that returns the same vectors
  and reports failure on every call, the step ends as it ends with the solver itself,
  with the same positions written back to the mesh.
\<close>
theorem contract_geometry_ignores_solver_status:
  "contract_geometry s \<noteq> Inl NumericalError
   \<and> contract_geometry (s\<lparr>m_solver := failing (m_solver s)\<rparr>)
       = map_sum id (\<lambda>t. t\<lparr>m_solver := failing (m_solver s)\<rparr>) (contract_geometry s)"
proof
  show "contract_geometry s \<noteq> Inl NumericalError"
    using contract_geometry_error [of s NumericalError] by auto
  show "contract_geometry (s\<lparr>m_solver := failing (m_solver s)\<rparr>)
       = map_sum id (\<lambda>t. t\<lparr>m_solver := failing (m_solver s)\<rparr>) (contract_geometry s)"
    by (rule contract_geometry_solver) (simp add: failing_def)
qed

lemma unanchored_run:
  "\<not> isl (assemble_LHS (compute_edge_weight unanchored) (Matrix 4 2))"
  "\<not> fst (pre_factor_non_symmetric (m_solver unanchored)
            (projr (assemble_LHS (compute_edge_weight unanchored) (Matrix 4 2))))"
  "\<not> isl (contract_geometry unanchored)"
  "point (polyhedron unanchored) 1 = Point 5 0 0"
  "point (polyhedron (projr (contract_geometry unanchored))) 1 = Point 0 0 0"
  by code_simp+

text \<open>
  Claim C1 as the specification states it (a solver failure makes the step fail with
  \<open>NumericalError\<close> and nothing is written back) fails on the two-vertex mesh with
  \<open>omega_H = 0\<close>: the system is assembled, the normal equations are singular and the
  factorization reports failure, yet the step returns without an error and the second
  vertex, which was at \<open>(5, 0, 0)\<close>, is at \<open>(0, 0, 0)\<close>.
\<close>
theorem solver_failure_counterexample:
  "\<not> isl (assemble_LHS (compute_edge_weight unanchored) (Matrix 4 2))
   \<and> \<not> fst (pre_factor_non_symmetric (m_solver unanchored)
            (projr (assemble_LHS (compute_edge_weight unanchored) (Matrix 4 2))))
   \<and> \<not> isl (contract_geometry unanchored)
   \<and> contract_geometry unanchored \<noteq> Inl NumericalError
   \<and> point (polyhedron unanchored) 1 = Point 5 0 0
   \<and> point (polyhedron (projr (contract_geometry unanchored))) 1 = Point 0 0 0"
  using unanchored_run by (auto simp: isl_def)

text \<open>
  The same input with a solver that reports failure on every call: the step returns.
\<close>
theorem contract_geometry_ignores_solver_status_witness:
  "contract_geometry unanchored \<noteq> Inl NumericalError
   \<and> contract_geometry (unanchored\<lparr>m_solver := failing normal_equations_2\<rparr>)
       = map_sum id (\<lambda>t. t\<lparr>m_solver := failing normal_equations_2\<rparr>) (contract_geometry unanchored)
   \<and> \<not> isl (contract_geometry (unanchored\<lparr>m_solver := failing normal_equations_2\<rparr>))"
proof -
  have solver: "m_solver unanchored = normal_equations_2"
    by (simp add: unanchored_def)
  have "\<not> isl (map_sum id (\<lambda>t. t\<lparr>m_solver := failing normal_equations_2\<rparr>) (contract_geometry unanchored))"
    using unanchored_run(3) by (cases "contract_geometry unanchored") simp_all
  then show ?thesis
    using contract_geometry_ignores_solver_status [of unanchored] by (simp add: solver)
qed

section \<open>The weight cache over two contraction steps\<close>

lemma contract_geometry_cache:
  assumes "contract_geometry s = Inr s'"
  shows "edge_weight s' = edge_weight s @
           map (\<lambda>e. weight_calculator s e (polyhedron s)) (edges (polyhedron s))"
proof -
  from assms obtain X Y Z where
    loop: "for_each (vertices (polyhedron s)) (copy_to_mesh X Y Z) (compute_edge_weight s) = Inr s'"
    by (rule contract_geometry_Inr)
  have "edge_weight s' = edge_weight (compute_edge_weight s)"
    by (subst copy_loop_Inr(1) [OF loop]) simp
  then show ?thesis
    by (simp add: compute_edge_weight_eq)
qed

lemma second_call_reads_first_call_weights:
  assumes fresh: "edge_weight s = []"
    and dense: "map (edge_id (polyhedron s)) (edges (polyhedron s)) = [0..<num_edges (polyhedron s)]"
    and run: "contract_geometry s = Inr s1"
  shows "length (edge_weight (compute_edge_weight s1)) = 2 * num_edges (polyhedron s)
       \<and> (\<forall>e\<in>set (edges (polyhedron s)).
            edge_weight (compute_edge_weight s1) ! edge_id (polyhedron s1) e
              = weight_calculator s e (polyhedron s))"
proof -
  let ?es = "edges (polyhedron s)"
  let ?old = "map (\<lambda>e. weight_calculator s e (polyhedron s)) ?es"
  have cache1: "edge_weight s1 = ?old"
    using contract_geometry_cache [OF run] fresh by simp
  have same: "edges (polyhedron s1) = ?es" "edge_id (polyhedron s1) = edge_id (polyhedron s)"
    using contract_geometry_mesh [OF run] by simp_all
  have cache2: "edge_weight (compute_edge_weight s1)
      = ?old @ map (\<lambda>e. weight_calculator s1 e (polyhedron s1)) ?es"
    by (simp add: compute_edge_weight_eq cache1 same)
  have len: "length (edge_weight (compute_edge_weight s1)) = 2 * num_edges (polyhedron s)"
    by (simp add: cache2 num_edges_def)
  have read: "edge_weight (compute_edge_weight s1) ! edge_id (polyhedron s1) e
      = weight_calculator s e (polyhedron s)" if e: "e \<in> set ?es" for e
  proof -
    from e obtain k where k: "k < length ?es" "?es ! k = e"
      by (auto simp: in_set_conv_nth)
    have "map (edge_id (polyhedron s)) ?es ! k = [0..<length ?es] ! k"
      using dense by (simp add: num_edges_def)
    then have id: "edge_id (polyhedron s) e = k"
      using k by simp
    show ?thesis
      using k by (simp add: cache2 same id nth_append)
  qed
  from len read show ?thesis by blast
qed

text \<open>
  \<open>assemble_LHS\<close> reads the cache at the ids of the incoming edges only, and these
  entries are the ones of the first call: on a closed mesh, the second contraction step
  of an object assembles the very matrix of its first step, wherever the first step has
  moved the vertices.
\<close>

lemma for_each_cong:
  assumes "\<And>a t. a \<in> set as \<Longrightarrow> f a t = g a t"
  shows "for_each as f s = for_each as g s"
  using assms
proof (induction as arbitrary: s)
  case Nil
  show ?case by simp
next
  case (Cons a as)
  have "f a s = g a s"
    by (simp add: Cons.prems)
  moreover have "for_each as f t = for_each as g t" for t
    by (rule Cons.IH) (simp add: Cons.prems)
  ultimately show ?case
    by (cases "g a s") simp_all
qed

lemma assemble_LHS_cong:
  fixes s s' :: "('v, 'e) Mean_curvature_skeleton"
  assumes "vertices (polyhedron s') = vertices (polyhedron s)"
    and "in_edges (polyhedron s') = in_edges (polyhedron s)"
    and "source (polyhedron s') = source (polyhedron s)"
    and "vertex_id (polyhedron s') = vertex_id (polyhedron s)"
    and "edge_id (polyhedron s') = edge_id (polyhedron s)"
    and "omega_L s' = omega_L s" and "omega_H s' = omega_H s"
    and reads: "\<forall>v\<in>set (vertices (polyhedron s)). \<forall>e\<in>set (in_edges (polyhedron s) v).
           vector_get (edge_weight s') (edge_id (polyhedron s) e)
             = vector_get (edge_weight s) (edge_id (polyhedron s) e)"
  shows "assemble_LHS s' A = assemble_LHS s A"
proof -
  have body: "in_edge_body s' i e t = in_edge_body s i e t"
    if "v \<in> set (vertices (polyhedron s))" "e \<in> set (in_edges (polyhedron s) v)" for v i e t
    using that reads by (simp add: in_edge_body_def assms(1-7))
  have row: "vertex_row s' v B = vertex_row s v B" if v: "v \<in> set (vertices (polyhedron s))" for v B
  proof -
    have "for_each (in_edges (polyhedron s) v) (in_edge_body s' i) t
        = for_each (in_edges (polyhedron s) v) (in_edge_body s i) t" for i t
      by (rule for_each_cong) (rule body [OF v])
    then show ?thesis
      by (simp add: vertex_row_def assms(1-7))
  qed
  have loop: "for_each (vertices (polyhedron s)) (vertex_row s')
      = for_each (vertices (polyhedron s)) (vertex_row s)"
    by (rule ext, rule for_each_cong, rule row)
  show ?thesis
    by (simp add: assemble_LHS_def assms(1-7) num_vertices_def loop)
qed

lemma second_step_assembles_first_matrix:
  fixes s :: "('v, 'e) Mean_curvature_skeleton"
  assumes fresh: "edge_weight s = []"
    and dense: "map (edge_id (polyhedron s)) (edges (polyhedron s)) = [0..<num_edges (polyhedron s)]"
    and closed: "\<forall>v\<in>set (vertices (polyhedron s)). \<forall>e\<in>set (in_edges (polyhedron s) v).
                   e \<in> set (edges (polyhedron s))"
    and run: "contract_geometry s = Inr s1"
  shows "assemble_LHS (compute_edge_weight s1) A = assemble_LHS (compute_edge_weight s) A"
proof (rule assemble_LHS_cong)
  note mesh = contract_geometry_mesh [OF run]
  note members = contract_geometry_members [OF run]
  show "vertices (polyhedron (compute_edge_weight s1)) = vertices (polyhedron (compute_edge_weight s))"
    "in_edges (polyhedron (compute_edge_weight s1)) = in_edges (polyhedron (compute_edge_weight s))"
    "source (polyhedron (compute_edge_weight s1)) = source (polyhedron (compute_edge_weight s))"
    "vertex_id (polyhedron (compute_edge_weight s1)) = vertex_id (polyhedron (compute_edge_weight s))"
    "edge_id (polyhedron (compute_edge_weight s1)) = edge_id (polyhedron (compute_edge_weight s))"
    "omega_L (compute_edge_weight s1) = omega_L (compute_edge_weight s)"
    "omega_H (compute_edge_weight s1) = omega_H (compute_edge_weight s)"
    by (simp_all add: mesh members)
  let ?es = "edges (polyhedron s)"
  have ids: "\<forall>e\<in>set ?es. edge_id (polyhedron s) e < length ?es"
    using dense_ids_facts(3) [of "edge_id (polyhedron s)" ?es] dense by (simp add: num_edges_def)
  have first: "edge_weight (compute_edge_weight s) = map (\<lambda>e. weight_calculator s e (polyhedron s)) ?es"
    by (simp add: compute_edge_weight_eq fresh)
  have second: "edge_weight (compute_edge_weight s1)
      = edge_weight (compute_edge_weight s) @ map (\<lambda>e. weight_calculator s1 e (polyhedron s1)) ?es"
    using contract_geometry_cache [OF run] by (simp add: compute_edge_weight_eq mesh)
  have "vector_get (edge_weight (compute_edge_weight s1)) (edge_id (polyhedron s) e)
      = vector_get (edge_weight (compute_edge_weight s)) (edge_id (polyhedron s) e)"
    if "e \<in> set ?es" for e
    using that ids by (simp add: second vector_get_def nth_append) (simp add: first)
  then show "\<forall>v\<in>set (vertices (polyhedron (compute_edge_weight s))).
      \<forall>e\<in>set (in_edges (polyhedron (compute_edge_weight s)) v).
        vector_get (edge_weight (compute_edge_weight s1)) (edge_id (polyhedron (compute_edge_weight s)) e)
          = vector_get (edge_weight (compute_edge_weight s)) (edge_id (polyhedron (compute_edge_weight s)) e)"
    using closed by simp
qed

lemma second_call_facts:
  "\<not> isl (contract_geometry anchored)"
  "num_edges (polyhedron contracted_once) = 2"
  "edge_weight (compute_edge_weight contracted_once) = [1 / 2, 1 / 2, 1 / 10, 1 / 10]"
  "edge_id (polyhedron contracted_once) (1, 0) = 0"
  "weight_calculator contracted_once (1, 0) (polyhedron contracted_once) = 1 / 10"
  "edge_weight (compute_edge_weight contracted_once) ! edge_id (polyhedron contracted_once) (1, 0) = 1 / 2"
  "omega_L contracted_once = 1"
  "coef (projr (assemble_LHS (compute_edge_weight contracted_once) (Matrix 4 2))) 0 1 = 1"
  by code_simp+

text \<open>
  Claim C2 fails on the code. \<open>compute_edge_weight\<close> appends to the cache and never
  clears it, so on the second contraction step of one object the cache holds two
  entries for every edge, and \<open>assemble_LHS\<close> reads the entry of the first step. On the
  two-vertex mesh: after one step the weight of the edge \<open>(1, 0)\<close> computed from the
  current positions is \<open>1/10\<close>; the cache of the second step is
  \<open>[1/2, 1/2, 1/10, 1/10]\<close> for two edges, the entry at the id of the edge is \<open>1/2\<close>, and
  the matrix entry is \<open>1 = 2 * 1/2 * omega_L\<close>. For every mesh:
  \<open>second_call_reads_first_call_weights\<close> and \<open>second_step_assembles_first_matrix\<close>.
\<close>
theorem stale_weights_on_second_call:
  "\<not> isl (contract_geometry anchored)
   \<and> num_edges (polyhedron contracted_once) = 2
   \<and> edge_weight (compute_edge_weight contracted_once) = [1 / 2, 1 / 2, 1 / 10, 1 / 10]
   \<and> edge_id (polyhedron contracted_once) (1, 0) = 0
   \<and> weight_calculator contracted_once (1, 0) (polyhedron contracted_once) = 1 / 10
   \<and> edge_weight (compute_edge_weight contracted_once) ! edge_id (polyhedron contracted_once) (1, 0) = 1 / 2
   \<and> omega_L contracted_once = 1
   \<and> coef (projr (assemble_LHS (compute_edge_weight contracted_once) (Matrix 4 2))) 0 1 = 1"
  by (intro conjI) (rule second_call_facts)+

lemma same_mesh_facts:
  "point (polyhedron contracted_once) 0 = Point 2 0 0"
  "point (polyhedron contracted_once) 1 = Point 3 0 0"
  "point (polyhedron fresh_object) 0 = Point 2 0 0"
  "point (polyhedron fresh_object) 1 = Point 3 0 0"
  "omega_L contracted_once = 1" "omega_H contracted_once = 1"
  "omega_L fresh_object = 1" "omega_H fresh_object = 1"
  "weight_calculator contracted_once (1, 0) (polyhedron contracted_once) = 1 / 10"
  "weight_calculator contracted_once (0, 1) (polyhedron contracted_once) = 1 / 10"
  "weight_calculator fresh_object (1, 0) (polyhedron fresh_object) = 1 / 10"
  "weight_calculator fresh_object (0, 1) (polyhedron fresh_object) = 1 / 10"
  "edge_weight contracted_once = [1 / 2, 1 / 2]"
  "edge_weight fresh_object = []"
  "vertices (polyhedron fresh_object) = vertices (polyhedron contracted_once)"
  "edges (polyhedron fresh_object) = edges (polyhedron contracted_once)"
  "in_edges (polyhedron fresh_object) 0 = in_edges (polyhedron contracted_once) 0"
  "in_edges (polyhedron fresh_object) 1 = in_edges (polyhedron contracted_once) 1"
  "vertex_id (polyhedron fresh_object) 0 = vertex_id (polyhedron contracted_once) 0"
  "vertex_id (polyhedron fresh_object) 1 = vertex_id (polyhedron contracted_once) 1"
  "edge_id (polyhedron fresh_object) (1, 0) = edge_id (polyhedron contracted_once) (1, 0)"
  "edge_id (polyhedron fresh_object) (0, 1) = edge_id (polyhedron contracted_once) (0, 1)"
  by code_simp+

lemma second_step_facts:
  "\<not> isl (contract_geometry contracted_once)"
  "\<not> isl (contract_geometry fresh_object)"
  "point (polyhedron (projr (contract_geometry contracted_once))) 0 = Point (12 / 5) 0 0"
  "point (polyhedron (projr (contract_geometry contracted_once))) 1 = Point (13 / 5) 0 0"
  "point (polyhedron (projr (contract_geometry fresh_object))) 0 = Point (60 / 29) 0 0"
  "point (polyhedron (projr (contract_geometry fresh_object))) 1 = Point (85 / 29) 0 0"
  by code_simp+

text \<open>
  Claim C10 fails on the code, by the defect of claim C2. The object after one step
  and a new object on the same segment have the same vertices, edges, ids, positions,
  weights \<open>omega_L\<close> and \<open>omega_H\<close>, and the same recomputed edge weights \<open>1/10\<close>; they
  differ in the cache that the first step has left. The next step puts the vertices
  at \<open>12/5\<close> and \<open>13/5\<close> in the first object and at \<open>60/29\<close> and \<open>85/29\<close> in the second:
  the new positions are not a function of the positions before the step, the recomputed
  weights and the two omegas alone. (That the update is simultaneous holds:
  \<open>contract_geometry_positions\<close>.)
\<close>
theorem new_positions_depend_on_old_cache:
  "vertices (polyhedron fresh_object) = vertices (polyhedron contracted_once)
   \<and> edges (polyhedron fresh_object) = edges (polyhedron contracted_once)
   \<and> in_edges (polyhedron fresh_object) 0 = in_edges (polyhedron contracted_once) 0
   \<and> in_edges (polyhedron fresh_object) 1 = in_edges (polyhedron contracted_once) 1
   \<and> vertex_id (polyhedron fresh_object) 0 = vertex_id (polyhedron contracted_once) 0
   \<and> vertex_id (polyhedron fresh_object) 1 = vertex_id (polyhedron contracted_once) 1
   \<and> edge_id (polyhedron fresh_object) (1, 0) = edge_id (polyhedron contracted_once) (1, 0)
   \<and> edge_id (polyhedron fresh_object) (0, 1) = edge_id (polyhedron contracted_once) (0, 1)
   \<and> point (polyhedron contracted_once) 0 = Point 2 0 0
   \<and> point (polyhedron contracted_once) 1 = Point 3 0 0
   \<and> point (polyhedron fresh_object) 0 = Point 2 0 0
   \<and> point (polyhedron fresh_object) 1 = Point 3 0 0
   \<and> omega_L contracted_once = 1 \<and> omega_H contracted_once = 1
   \<and> omega_L fresh_object = 1 \<and> omega_H fresh_object = 1
   \<and> weight_calculator contracted_once (1, 0) (polyhedron contracted_once) = 1 / 10
   \<and> weight_calculator contracted_once (0, 1) (polyhedron contracted_once) = 1 / 10
   \<and> weight_calculator fresh_object (1, 0) (polyhedron fresh_object) = 1 / 10
   \<and> weight_calculator fresh_object (0, 1) (polyhedron fresh_object) = 1 / 10
   \<and> edge_weight contracted_once = [1 / 2, 1 / 2]
   \<and> edge_weight fresh_object = []
   \<and> \<not> isl (contract_geometry contracted_once)
   \<and> \<not> isl (contract_geometry fresh_object)
   \<and> point (polyhedron (projr (contract_geometry contracted_once))) 0 = Point (12 / 5) 0 0
   \<and> point (polyhedron (projr (contract_geometry contracted_once))) 1 = Point (13 / 5) 0 0
   \<and> point (polyhedron (projr (contract_geometry fresh_object))) 0 = Point (60 / 29) 0 0
   \<and> point (polyhedron (projr (contract_geometry fresh_object))) 1 = Point (85 / 29) 0 0"
  by (intro conjI) (rule same_mesh_facts second_step_facts)+

section \<open>The members modelled from the specification\<close>



lemma maintenance_fixed_points [simp]:
  "fixed_points (fst (collapse_short_edges tm d)) = fixed_points d"
  "fixed_points (fst (iteratively_split_triangles tm d)) = fixed_points d"
  by (simp_all add: collapse_short_edges_def iteratively_split_triangles_def case_prod_beta)






section \<open>A contraction step returns on a well-formed mesh\<close>

lemma contract_geometry_returns:
  fixes s :: "('v, 'e) Mean_curvature_skeleton"
  assumes dense: "map (vertex_id (polyhedron s)) (vertices (polyhedron s))
                    = [0..<num_vertices (polyhedron s)]"
    and closed: "\<forall>v\<in>set (vertices (polyhedron s)). \<forall>e\<in>set (in_edges (polyhedron s) v).
                    source (polyhedron s) e \<in> set (vertices (polyhedron s))
                    \<and> edge_id (polyhedron s) e < length (edge_weight s) + num_edges (polyhedron s)"
    and solver: "\<forall>A B. num_vertices (polyhedron s)
                    \<le> length (snd (linear_solver_non_symmetric (m_solver s) A B
                                      (Vector (num_vertices (polyhedron s)))))"
  shows "\<exists>s'. contract_geometry s = Inr s'"
proof -
  let ?s = "compute_edge_weight s"
  let ?n = "num_vertices (polyhedron s)"
  have len: "length (edge_weight ?s) = length (edge_weight s) + num_edges (polyhedron s)"
    by (simp add: compute_edge_weight_eq num_edges_def)
  have dense': "map (vertex_id (polyhedron ?s)) (vertices (polyhedron ?s))
                  = [0..<num_vertices (polyhedron ?s)]"
    using dense by simp
  have closed': "\<forall>v\<in>set (vertices (polyhedron ?s)). \<forall>e\<in>set (in_edges (polyhedron ?s) v).
                    source (polyhedron ?s) e \<in> set (vertices (polyhedron ?s))
                    \<and> edge_id (polyhedron ?s) e < length (edge_weight ?s)"
    using closed by (simp add: len)
  have "num_vertices (polyhedron ?s) * 2 \<le> row_dimension (Matrix (?n * 2) ?n)"
    "num_vertices (polyhedron ?s) \<le> column_dimension (Matrix (?n * 2) ?n)"
    by (simp_all add: Matrix_def)
  from assemble_LHS_result [OF dense' closed' this] obtain A where
    A: "assemble_LHS ?s (Matrix (?n * 2) ?n) = Inr A"
    by blast
  have "num_vertices (polyhedron ?s) * 2 \<le> length (Vector (?n * 2))"
    by (simp add: Vector_def)
  from assemble_RHS_result [OF dense' this this this] obtain Bx By Bz where
    B: "assemble_RHS ?s (Vector (?n * 2), Vector (?n * 2), Vector (?n * 2)) = Inr (Bx, By, Bz)"
    by blast
  have ids: "\<forall>v\<in>set (vertices (polyhedron s)). vertex_id (polyhedron s) v < ?n"
    using dense_ids_facts(3) [of "vertex_id (polyhedron s)" "vertices (polyhedron s)"] dense
    by (simp add: num_vertices_def)
  have range: "\<forall>v\<in>set (vertices (polyhedron ?s)).
      vertex_id (polyhedron ?s) v
        < length (snd (linear_solver_non_symmetric (m_solver s) A Bx (Vector ?n)))
    \<and> vertex_id (polyhedron ?s) v
        < length (snd (linear_solver_non_symmetric (m_solver s) A By (Vector ?n)))
    \<and> vertex_id (polyhedron ?s) v
        < length (snd (linear_solver_non_symmetric (m_solver s) A Bz (Vector ?n)))"
    using ids solver by (auto intro: less_le_trans)
  then have "\<exists>s'. for_each (vertices (polyhedron ?s))
      (copy_to_mesh (snd (linear_solver_non_symmetric (m_solver s) A Bx (Vector ?n)))
                    (snd (linear_solver_non_symmetric (m_solver s) A By (Vector ?n)))
                    (snd (linear_solver_non_symmetric (m_solver s) A Bz (Vector ?n)))) ?s = Inr s'"
    by (simp add: copy_loop_eq)
  then show ?thesis
    by (simp add: contract_geometry_def Let_def A B case_prod_beta)
qed

text \<open>
  Hence any number of steps returns, when the mesh is closed, its ids are those that the
  constructor assigns, and the solver returns a vector with an entry for every vertex.
\<close>

lemma contract_steps_return:
  fixes s :: "('v, 'e) Mean_curvature_skeleton"
  assumes "map (vertex_id (polyhedron s)) (vertices (polyhedron s)) = [0..<num_vertices (polyhedron s)]"
    and "\<forall>v\<in>set (vertices (polyhedron s)). \<forall>e\<in>set (in_edges (polyhedron s) v).
           source (polyhedron s) e \<in> set (vertices (polyhedron s))
           \<and> edge_id (polyhedron s) e < length (edge_weight s) + num_edges (polyhedron s)"
    and "\<forall>A B. num_vertices (polyhedron s)
           \<le> length (snd (linear_solver_non_symmetric (m_solver s) A B
                             (Vector (num_vertices (polyhedron s)))))"
  shows "\<exists>s'. contract_steps k s = Inr s'"
  using assms
proof (induction k arbitrary: s)
  case 0
  show ?case by simp
next
  case (Suc k)
  from contract_geometry_returns [OF Suc.prems] obtain s1 where
    step: "contract_geometry s = Inr s1" ..
  note mesh = contract_geometry_mesh [OF step]
  note members = contract_geometry_members [OF step]
  have cache: "length (edge_weight s1) = length (edge_weight s) + num_edges (polyhedron s)"
    using contract_geometry_cache [OF step] by (simp add: num_edges_def)
  have 1: "map (vertex_id (polyhedron s1)) (vertices (polyhedron s1))
             = [0..<num_vertices (polyhedron s1)]"
    using Suc.prems(1) by (simp add: mesh)
  have 2: "\<forall>v\<in>set (vertices (polyhedron s1)). \<forall>e\<in>set (in_edges (polyhedron s1) v).
           source (polyhedron s1) e \<in> set (vertices (polyhedron s1))
           \<and> edge_id (polyhedron s1) e < length (edge_weight s1) + num_edges (polyhedron s1)"
    using Suc.prems(2) by (auto simp: mesh cache intro: trans_less_add1)
  have 3: "\<forall>A B. num_vertices (polyhedron s1)
           \<le> length (snd (linear_solver_non_symmetric (m_solver s1) A B
                             (Vector (num_vertices (polyhedron s1)))))"
    using Suc.prems(3) by (simp add: mesh members)
  from Suc.IH [OF 1 2 3] show ?case
    by (simp add: step)
qed

end
